theory Spec2Isabelle
  imports Main "HOL-Library.Multiset"
begin

section \<open>Staging an Electron distribution: a model of ElectronFramework.ts\<close>

text \<open>
  The file under study is \<open>packages/app-builder-lib/src/electron/ElectronFramework.ts\<close>.
  Its functions are asynchronous and work on the file system; here each of them is a
  function from the file system before the call to an outcome: what the call returned
  or threw, the file system after it, and the external operations it performed, in order.
\<close>

subsection \<open>JavaScript values\<close>

type_synonym path = string

text \<open>
  What a rejected promise carries: an \<open>Error\<close> the file itself throws, the
  \<open>ENOENT\<close> of a file-system call on a missing path, or the failure of an external
  collaborator (the unpack worker, the directory copy, the bundle constructor).
\<close>

datatype error = Error string | ENOENT path | Failed string

text \<open>
  Where the code only tests a value with \<open>== null\<close>, \<open>?.\<close> or \<open>||\<close>, an optional
  \<open>p?: string\<close> is a \<open>string option\<close>: \<open>None\<close> stands for an absent property and
  for \<open>undefined\<close> and \<open>null\<close>, which these tests do not tell apart. \<open>x || d\<close> yields
  \<open>d\<close> when \<open>x\<close> is falsy: absent or the empty string.
\<close>

definition js_or :: "string option \<Rightarrow> string \<Rightarrow> string" where
  "js_or x d = (case x of None \<Rightarrow> d | Some s \<Rightarrow> if s = [] then d else s)"

text \<open>
  A property of an object that is spread or printed: it is absent, or present with the
  value \<open>undefined\<close>, with \<open>null\<close>, or with a value of its type. Reading an absent
  property yields \<open>undefined\<close>.
\<close>

datatype 'a property = Absent | Undefined | Null | Present 'a

text \<open>
  A template literal prints \<open>undefined\<close> as the word \<open>undefined\<close> and \<open>null\<close> as the
  word \<open>null\<close>.
\<close>

definition js_template :: "string property \<Rightarrow> string" where
  "js_template x =
     (case x of Absent \<Rightarrow> ''undefined'' | Undefined \<Rightarrow> ''undefined'' | Null \<Rightarrow> ''null''
      | Present s \<Rightarrow> s)"

definition endsWith :: "string \<Rightarrow> string \<Rightarrow> bool" where
  "endsWith s suffix = (length suffix \<le> length s \<and> drop (length s - length suffix) s = suffix)"

subsection \<open>Branding and download options\<close>

datatype electronPlatformName = darwin | linux | win32 | mas

definition platformName_str :: "electronPlatformName \<Rightarrow> string" where
  "platformName_str p = (case p of darwin \<Rightarrow> ''darwin'' | linux \<Rightarrow> ''linux''
     | win32 \<Rightarrow> ''win32'' | mas \<Rightarrow> ''mas'')"

text \<open>\<open>ElectronBrandingOptions\<close>, both properties optional.\<close>

record electronBrandingOptions =
  eb_projectName :: "string option"
  eb_productName :: "string option"

text \<open>\<open>Required<ElectronBrandingOptions>\<close>: both properties are strings.\<close>

record brandingOpts =
  projectName :: string
  productName :: string

text \<open>
  \<open>ElectronDownloadOptions\<close>. The object is spread and its properties are printed, so
  each property keeps whether it is absent, \<open>undefined\<close>, \<open>null\<close> or a value.
\<close>

record electronDownloadOptions =
  dl_version :: "string property"
  dl_cache :: "string property"
  dl_mirror :: "string property"
  dl_customDir :: "string property"
  dl_customFilename :: "string property"
  dl_strictSSL :: "bool property"
  dl_isVerifyChecksum :: "bool property"
  dl_platform :: "electronPlatformName property"
  dl_arch :: "string property"

text \<open>
  \<open>electronDist\<close> is a path or a function of the prepare options. The function is
  given the options' \<open>appOutDir\<close>, \<open>platformName\<close>, \<open>arch\<close> and \<open>version\<close>; the
  \<open>packager\<close> property is left out of the model of the callback, since the packager
  holds the configuration that holds the callback.
\<close>

datatype electronDist =
    DistPath path
  | DistFn "path \<Rightarrow> electronPlatformName \<Rightarrow> string \<Rightarrow> string \<Rightarrow> path option"

text \<open>The properties of \<open>Configuration\<close> that the file reads.\<close>

record configuration =
  cfg_electronVersion :: "string option"
  cfg_electronBranding :: "electronBrandingOptions option"
  cfg_electronDownload :: "electronDownloadOptions option"
  cfg_electronDist :: "electronDist option"
  cfg_downloadAlternateFFmpeg :: "bool option"

text \<open>
  \<open>createBrandingOpts\<close> (lines 30-35). \<open>opts.electronBranding?.projectName\<close> is
  undefined when \<open>electronBranding\<close> is.
\<close>

definition createBrandingOpts :: "configuration \<Rightarrow> brandingOpts" where
  "createBrandingOpts opts =
     \<lparr> projectName = js_or (Option.bind (cfg_electronBranding opts) eb_projectName) ''electron'',
       productName = js_or (Option.bind (cfg_electronBranding opts) eb_productName) ''Electron'' \<rparr>"

text \<open>
  Object spread \<open>{...base, ...over}\<close>: every own property of \<open>over\<close>, also one whose
  value is \<open>undefined\<close> or \<open>null\<close>, replaces the property of \<open>base\<close>; a property
  that \<open>over\<close> does not have is the one of \<open>base\<close>.
\<close>

definition spreadProperty :: "'a property \<Rightarrow> 'a property \<Rightarrow> 'a property" where
  "spreadProperty base over = (case over of Absent \<Rightarrow> base | _ \<Rightarrow> over)"

definition spread :: "electronDownloadOptions \<Rightarrow> electronDownloadOptions \<Rightarrow> electronDownloadOptions" where
  "spread base over =
     \<lparr> dl_version = spreadProperty (dl_version base) (dl_version over),
       dl_cache = spreadProperty (dl_cache base) (dl_cache over),
       dl_mirror = spreadProperty (dl_mirror base) (dl_mirror over),
       dl_customDir = spreadProperty (dl_customDir base) (dl_customDir over),
       dl_customFilename = spreadProperty (dl_customFilename base) (dl_customFilename over),
       dl_strictSSL = spreadProperty (dl_strictSSL base) (dl_strictSSL over),
       dl_isVerifyChecksum = spreadProperty (dl_isVerifyChecksum base) (dl_isVerifyChecksum over),
       dl_platform = spreadProperty (dl_platform base) (dl_platform over),
       dl_arch = spreadProperty (dl_arch base) (dl_arch over) \<rparr>"

text \<open>
  The object literal \<open>{}\<close>: what spreading an \<open>electronDownload\<close> that is
  \<open>undefined\<close> or \<open>null\<close> adds.
\<close>

definition noDownloadOptions :: electronDownloadOptions where
  "noDownloadOptions =
     \<lparr> dl_version = Absent, dl_cache = Absent, dl_mirror = Absent, dl_customDir = Absent,
       dl_customFilename = Absent, dl_strictSSL = Absent, dl_isVerifyChecksum = Absent,
       dl_platform = Absent, dl_arch = Absent \<rparr>"

text \<open>
  \<open>createDownloadOpts\<close> (lines 64-71): the computed properties first, the configured
  object spread after them.
\<close>

definition createDownloadOpts ::
  "configuration \<Rightarrow> electronPlatformName \<Rightarrow> string \<Rightarrow> string \<Rightarrow> electronDownloadOptions" where
  "createDownloadOpts opts platform arch electronVersion =
     spread (noDownloadOptions \<lparr> dl_platform := Present platform, dl_arch := Present arch,
                                 dl_version := Present electronVersion \<rparr>)
       (case cfg_electronDownload opts of None \<Rightarrow> noDownloadOptions | Some d \<Rightarrow> d)"

subsection \<open>Paths and the file system\<close>

text \<open>
  The functions of Node's \<open>path\<close> module that the file calls are parameters: what
  they return depends on the host (separator, drive letters, working directory), and
  they normalise what they are given. \<open>path.join\<close> takes its segments as a list;
  \<open>path.resolve\<close> is called with a base and a path.
\<close>

record pathModule =
  path_join :: "string list \<Rightarrow> path"
  path_resolve :: "path \<Rightarrow> path \<Rightarrow> path"
  path_isAbsolute :: "path \<Rightarrow> bool"

text \<open>
  The file system is the list of the paths that exist (files and directories alike,
  each directory listed with everything below it), in the order in which a directory
  enumeration yields them. Its own structure is POSIX-style: \<open>under d p\<close>, the path
  \<open>p\<close> lies below the directory \<open>d\<close>, when \<open>p\<close> starts with \<open>d\<close> and a separator.
\<close>

type_synonym fs = "path list"

definition under :: "path \<Rightarrow> path \<Rightarrow> bool" where
  "under d p = (take (Suc (length d)) p = d @ ''/'')"

text \<open>
  The entries of a directory \<open>d\<close> are the paths directly below it; \<open>fs_entries\<close> lists
  their names, in the order of the file system.
\<close>

definition entryName :: "path \<Rightarrow> path \<Rightarrow> string" where
  "entryName d p = drop (Suc (length d)) p"

definition isEntry :: "path \<Rightarrow> path \<Rightarrow> bool" where
  "isEntry d p = (under d p \<and> entryName d p \<noteq> [] \<and> CHR ''/'' \<notin> set (entryName d p))"

definition fs_entries :: "path \<Rightarrow> fs \<Rightarrow> string list" where
  "fs_entries d fs = map (entryName d) (filter (isEntry d) fs)"

text \<open>Removing a path removes it and everything below it.\<close>

definition fs_remove :: "path \<Rightarrow> fs \<Rightarrow> fs" where
  "fs_remove p fs = filter (\<lambda>q. q \<noteq> p \<and> \<not> under p q) fs"

text \<open>
  Moving \<open>src\<close> to \<open>dst\<close> renames \<open>src\<close> and everything below it, and replaces
  what was at \<open>dst\<close> before.
\<close>

definition fs_move :: "path \<Rightarrow> path \<Rightarrow> fs \<Rightarrow> fs" where
  "fs_move src dst fs =
     map (\<lambda>q. if q = src \<or> under src q then dst @ drop (length src) q else q)
       (filter (\<lambda>q. if q = src \<or> under src q then True else q \<noteq> dst \<and> \<not> under dst q) fs)"

subsection \<open>Outcomes of asynchronous calls\<close>

text \<open>
  The arguments of the unpack worker: plain strings, and the
  \<open>JSON.stringify([options])\<close> of the download options.
\<close>

datatype arg = Str string | Json "electronDownloadOptions list"

text \<open>The external operations a call performs, as the file names them.\<close>

datatype action =
    StatOrNull path
  | ExecuteAppBuilder "arg list"
  | EmptyDir path
  | CopyDir path path
  | UnlinkIfExists path
  | Rename path path
  | CreateMacApp path bool
  | Readdir path
  | Rm path
  | ReplaceFFMPEG path string electronPlatformName string
  | GetElectronVersionFromInstalled path
  | ComputeElectronVersion path

record 'a outcome =
  result :: "error + 'a"
  files :: fs
  actions :: "action list"

type_synonym 'a io = "fs \<Rightarrow> 'a outcome"

definition io_return :: "'a \<Rightarrow> 'a io" where
  "io_return x fs = \<lparr> result = Inr x, files = fs, actions = [] \<rparr>"

text \<open>\<open>const x = await m; f x\<close>: a rejection of \<open>m\<close> ends the function.\<close>

definition io_bind :: "'a io \<Rightarrow> ('a \<Rightarrow> 'b io) \<Rightarrow> 'b io" where
  "io_bind m f fs =
     (let r = m fs in
      case result r of
        Inl e \<Rightarrow> \<lparr> result = Inl e, files = files r, actions = actions r \<rparr>
      | Inr x \<Rightarrow>
          (let r' = f x (files r) in
           \<lparr> result = result r', files = files r', actions = actions r @ actions r' \<rparr>))"

text \<open>\<open>m.catch(() => { /* ignore */ })\<close>.\<close>

definition io_catch :: "unit io \<Rightarrow> unit io" where
  "io_catch m fs =
     (let r = m fs in \<lparr> result = Inr (), files = files r, actions = actions r \<rparr>)"

text \<open>
  \<open>Promise.all\<close> over promises created in the order of the list: every one of them
  runs, and the first rejection, if any, is the result.
\<close>

fun promise_all :: "unit io list \<Rightarrow> unit io" where
  "promise_all [] fs = io_return () fs"
| "promise_all (m # ms) fs =
     (let r = m fs; r' = promise_all ms (files r) in
      \<lparr> result = (case result r of Inl e \<Rightarrow> Inl e | Inr u \<Rightarrow> result r'),
        files = files r', actions = actions r @ actions r' \<rparr>)"

subsection \<open>File-system calls\<close>

text \<open>
  \<open>rename\<close> of fs-extra: rejects with \<open>ENOENT\<close> when the source does not exist,
  otherwise moves the source and everything below it, replacing the destination.
\<close>

definition rename :: "path \<Rightarrow> path \<Rightarrow> unit io" where
  "rename src dst fs =
     (if src \<in> set fs
      then \<lparr> result = Inr (), files = fs_move src dst fs, actions = [Rename src dst] \<rparr>
      else \<lparr> result = Inl (ENOENT src), files = fs, actions = [Rename src dst] \<rparr>)"

text \<open>\<open>readdir\<close>: the names of the entries of a directory, in enumeration order.\<close>

definition readdir :: "path \<Rightarrow> (string list) io" where
  "readdir d fs =
     (if d \<in> set fs
      then \<lparr> result = Inr (fs_entries d fs), files = fs, actions = [Readdir d] \<rparr>
      else \<lparr> result = Inl (ENOENT d), files = fs, actions = [Readdir d] \<rparr>)"

text \<open>\<open>fs.rm(p, { recursive: true, force: true })\<close>: a missing path is not an error.\<close>

definition rm :: "path \<Rightarrow> unit io" where
  "rm p fs = \<lparr> result = Inr (), files = fs_remove p fs, actions = [Rm p] \<rparr>"

text \<open>
  Modelled from the spec: \<open>statOrNull\<close> of builder-util is not under src/. The spec
  reads its answer as whether the named file is there ("a zip file named ... inside the
  resolved cache directory signals already downloaded"); the model returns the path
  in place of the \<open>Stats\<close> object, and null for a path that does not exist.
\<close>

definition statOrNull :: "path \<Rightarrow> (path option) io" where
  "statOrNull p fs =
     \<lparr> result = Inr (if p \<in> set fs then Some p else None), files = fs,
       actions = [StatOrNull p] \<rparr>"

text \<open>
  Modelled from the spec: \<open>unlinkIfExists\<close> of builder-util is not under src/. The
  spec: the marker is removed "if present (best-effort: absence is not an error)".
\<close>

definition unlinkIfExists :: "path \<Rightarrow> unit io" where
  "unlinkIfExists p fs =
     \<lparr> result = Inr (), files = filter (\<lambda>q. q \<noteq> p) fs, actions = [UnlinkIfExists p] \<rparr>"

subsection \<open>Packagers and external collaborators\<close>

datatype platform = MAC | LINUX | WINDOWS

text \<open>\<open>electronLanguages?: Array<string> | string | null\<close>.\<close>

datatype languages = Language string | Languages "string list"

text \<open>
  Modelled from the spec: \<open>asArray\<close> of builder-util is not under src/. The spec calls
  \<open>electronLanguages\<close> an optional allow-list of locale identifiers: no value is the
  empty list, one identifier a list of one.
\<close>

definition asArray :: "languages option \<Rightarrow> string list" where
  "asArray v = (case v of None \<Rightarrow> [] | Some (Language l) \<Rightarrow> [l] | Some (Languages ls) \<Rightarrow> ls)"

text \<open>
  What the file reads of a platform packager: \<open>platform\<close>, \<open>config\<close>,
  \<open>projectDir\<close>, \<open>appInfo.productFilename\<close>, \<open>executableName\<close> (of a Linux
  packager), \<open>platformSpecificBuildOptions.electronLanguages\<close>, and three methods
  that compute paths.
\<close>

record platformPackager =
  pp_platform :: platform
  pp_config :: configuration
  pp_projectDir :: path
  pp_productFilename :: string
  pp_executableName :: string
  pp_electronLanguages :: "languages option"
  pp_getResourcesDir :: "path \<Rightarrow> path"
  pp_getElectronSrcDir :: "path \<Rightarrow> path"
  pp_getElectronDestinationDir :: "path \<Rightarrow> path"

text \<open>What \<open>createElectronFrameworkSupport\<close> reads of the \<open>Packager\<close>; the type of the manifest metadata stays open.\<close>

record 'm packager =
  pkg_projectDir :: path
  pkg_isPrepackedAppAsar :: bool
  pkg_metadata :: 'm

record prepareApplicationStageDirectoryOptions =
  po_packager :: platformPackager
  po_appOutDir :: path
  po_platformName :: electronPlatformName
  po_arch :: string
  po_version :: string

text \<open>The type of the integrity descriptor stays open: it is only handed on.\<close>

record 'i beforeCopyExtraFilesOptions =
  bc_packager :: platformPackager
  bc_appOutDir :: path
  bc_asarIntegrity :: "'i option"
  bc_platformName :: electronPlatformName

text \<open>
  The collaborators whose code is outside the file, as parameters: whether the remote
  build server unpacks Electron itself, the unpack worker, \<open>emptyDir\<close> of fs-extra, the
  directory copy, the macOS bundle constructor and the codec replacement. Each of the
  last five maps the file system to a new one, or fails.
\<close>

record 'i collaborators =
  ext_isSafeToUnpackElectronOnRemoteBuildServer :: "platformPackager \<Rightarrow> bool"
  ext_executeAppBuilder :: "arg list \<Rightarrow> fs \<Rightarrow> error + fs"
  ext_emptyDir :: "path \<Rightarrow> fs \<Rightarrow> error + fs"
  ext_copyDir :: "path \<Rightarrow> path \<Rightarrow> fs \<Rightarrow> error + fs"
  ext_createMacApp :: "platformPackager \<Rightarrow> path \<Rightarrow> 'i option \<Rightarrow> bool \<Rightarrow> fs \<Rightarrow> error + fs"
  ext_replaceFFMPEG :: "path \<Rightarrow> string \<Rightarrow> electronPlatformName \<Rightarrow> string \<Rightarrow> fs \<Rightarrow> fs"

text \<open>The two readers of \<open>./electronVersion\<close>, as parameters.\<close>

record 'm versionReaders =
  ext_getElectronVersionFromInstalled :: "path \<Rightarrow> error + string option"
  ext_computeElectronVersion :: "path \<Rightarrow> 'm \<Rightarrow> error + string"

text \<open>
  A call of a collaborator: the operation is recorded, and the file system is the one
  the collaborator leaves (the old one when it fails).
\<close>

definition external :: "action \<Rightarrow> (fs \<Rightarrow> error + fs) \<Rightarrow> unit io" where
  "external a f fs =
     (case f fs of
        Inl e \<Rightarrow> \<lparr> result = Inl e, files = fs, actions = [a] \<rparr>
      | Inr fs' \<Rightarrow> \<lparr> result = Inr (), files = fs', actions = [a] \<rparr>)"

definition executeAppBuilder :: "'i collaborators \<Rightarrow> arg list \<Rightarrow> unit io" where
  "executeAppBuilder env args = external (ExecuteAppBuilder args) (ext_executeAppBuilder env args)"

definition emptyDir :: "'i collaborators \<Rightarrow> path \<Rightarrow> unit io" where
  "emptyDir env dir = external (EmptyDir dir) (ext_emptyDir env dir)"

definition copyDir :: "'i collaborators \<Rightarrow> path \<Rightarrow> path \<Rightarrow> unit io" where
  "copyDir env source destination =
     external (CopyDir source destination) (ext_copyDir env source destination)"

definition createMacApp ::
  "'i collaborators \<Rightarrow> platformPackager \<Rightarrow> path \<Rightarrow> 'i option \<Rightarrow> bool \<Rightarrow> unit io" where
  "createMacApp env packager appOutDir asarIntegrity isMas =
     external (CreateMacApp appOutDir isMas)
       (ext_createMacApp env packager appOutDir asarIntegrity isMas)"

definition replaceFFMPEG ::
  "'i collaborators \<Rightarrow> path \<Rightarrow> string \<Rightarrow> electronPlatformName \<Rightarrow> string \<Rightarrow> unit io" where
  "replaceFFMPEG env appOutDir version platformName arch =
     external (ReplaceFFMPEG appOutDir version platformName arch)
       (\<lambda>fs. Inr (ext_replaceFFMPEG env appOutDir version platformName arch fs))"

subsection \<open>The pre-extra-files hook\<close>

definition langFileExt :: string where
  "langFileExt = ''.lproj''"

text \<open>The callback of \<open>BluebirdPromise.map\<close> (lines 99-109).\<close>

definition pruneLocale :: "pathModule \<Rightarrow> string list \<Rightarrow> path \<Rightarrow> string \<Rightarrow> unit io" where
  "pruneLocale path wantedLanguages resourcesDir file =
     (if \<not> endsWith file langFileExt then io_return ()
      else
        let language = take (length file - length langFileExt) file in
        if language \<notin> set wantedLanguages then rm (path_join path [resourcesDir, file])
        else io_return ())"

text \<open>
  \<open>beforeCopyExtraFiles\<close> (lines 73-113). The map over the directory listing calls
  the callback on every entry, in the order of the listing.
\<close>

definition beforeCopyExtraFiles ::
  "pathModule \<Rightarrow> 'i collaborators \<Rightarrow> 'i beforeCopyExtraFilesOptions \<Rightarrow> unit io" where
  "beforeCopyExtraFiles path env options =
     (let packager = bc_packager options;
          appOutDir = bc_appOutDir options;
          electronBranding = createBrandingOpts (pp_config packager)
      in
      if pp_platform packager = LINUX then
        (if \<not> ext_isSafeToUnpackElectronOnRemoteBuildServer env packager then
           (let executable = path_join path [appOutDir, pp_executableName packager] in
            rename (path_join path [appOutDir, projectName electronBranding]) executable)
         else io_return ())
      else if pp_platform packager = WINDOWS then
        (let executable = path_join path [appOutDir, pp_productFilename packager @ ''.exe''] in
         rename (path_join path [appOutDir, projectName electronBranding @ ''.exe'']) executable)
      else
        io_bind (createMacApp env packager appOutDir (bc_asarIntegrity options)
                   (bc_platformName options = mas))
          (\<lambda>_. let wantedLanguages = asArray (pp_electronLanguages packager) in
                if length wantedLanguages = 0 then io_return ()
                else
                  let resourcesDir = pp_getResourcesDir packager appOutDir in
                  io_bind (readdir resourcesDir)
                    (\<lambda>entries.
                       promise_all (map (pruneLocale path wantedLanguages resourcesDir) entries))))"

subsection \<open>The framework\<close>

text \<open>The constructor arguments of \<open>ElectronFramework\<close>.\<close>

record electronFramework =
  fw_name :: string
  fw_version :: string
  fw_distMacOsAppName :: string

text \<open>Lines 164-165: the framework object, named after the branding of the configuration.\<close>

definition newElectronFramework :: "configuration \<Rightarrow> string \<Rightarrow> electronFramework" where
  "newElectronFramework configuration version =
     (let branding = createBrandingOpts configuration in
      \<lparr> fw_name = projectName branding, fw_version = version,
        fw_distMacOsAppName = productName branding @ ''.app'' \<rparr>)"

text \<open>
  \<open>createElectronFrameworkSupport\<close> (lines 149-166). The configuration object is
  mutated, so the configuration after the call is returned beside the result (it is
  returned also when the call throws), with the calls of the readers.
\<close>

definition createElectronFrameworkSupport ::
  "'m versionReaders \<Rightarrow> configuration \<Rightarrow> 'm packager
     \<Rightarrow> (error + electronFramework) \<times> configuration \<times> action list" where
  "createElectronFrameworkSupport env configuration packager =
     (case cfg_electronVersion configuration of
        Some version \<Rightarrow> (Inr (newElectronFramework configuration version), configuration, [])
      | None \<Rightarrow>
          if pkg_isPrepackedAppAsar packager then
            (case ext_getElectronVersionFromInstalled env (pkg_projectDir packager) of
               Inl e \<Rightarrow>
                 (Inl e, configuration, [GetElectronVersionFromInstalled (pkg_projectDir packager)])
             | Inr None \<Rightarrow>
                 (Inl (Error ''Cannot compute electron version for prepacked asar''), configuration,
                  [GetElectronVersionFromInstalled (pkg_projectDir packager)])
             | Inr (Some version) \<Rightarrow>
                 (let configuration' = configuration \<lparr> cfg_electronVersion := Some version \<rparr> in
                  (Inr (newElectronFramework configuration' version), configuration',
                   [GetElectronVersionFromInstalled (pkg_projectDir packager)])))
          else
            (case ext_computeElectronVersion env (pkg_projectDir packager) (pkg_metadata packager) of
               Inl e \<Rightarrow> (Inl e, configuration, [ComputeElectronVersion (pkg_projectDir packager)])
             | Inr version \<Rightarrow>
                 (let configuration' = configuration \<lparr> cfg_electronVersion := Some version \<rparr> in
                  (Inr (newElectronFramework configuration' version), configuration',
                   [ComputeElectronVersion (pkg_projectDir packager)]))))"

text \<open>\<open>cleanupAfterUnpack\<close> (lines 203-217).\<close>

definition cleanupAfterUnpack ::
  "pathModule \<Rightarrow> prepareApplicationStageDirectoryOptions \<Rightarrow> string \<Rightarrow> bool \<Rightarrow> unit io" where
  "cleanupAfterUnpack path prepareOptions distMacOsAppName isFullCleanup =
     (let out = po_appOutDir prepareOptions;
          isMac = (pp_platform (po_packager prepareOptions) = MAC);
          resourcesPath =
            (if isMac then path_join path [out, distMacOsAppName, ''Contents'', ''Resources'']
             else path_join path [out, ''resources''])
      in
      promise_all
        [ if isFullCleanup
          then unlinkIfExists (path_join path [resourcesPath, ''default_app.asar''])
          else io_return (),
          if isFullCleanup then unlinkIfExists (path_join path [out, ''version''])
          else io_return (),
          if isMac then io_return ()
          else io_catch (rename (path_join path [out, ''LICENSE''])
                           (path_join path [out, ''LICENSE.electron.txt''])) ])"

text \<open>Lines 171-172 of \<open>unpack\<close>: the configured distribution, a callback called.\<close>

definition configuredDist :: "prepareApplicationStageDirectoryOptions \<Rightarrow> path option" where
  "configuredDist prepareOptions =
     (case cfg_electronDist (pp_config (po_packager prepareOptions)) of
        None \<Rightarrow> None
      | Some (DistPath p) \<Rightarrow> Some p
      | Some (DistFn f) \<Rightarrow>
          f (po_appOutDir prepareOptions) (po_platformName prepareOptions)
            (po_arch prepareOptions) (po_version prepareOptions))"

text \<open>Lines 174-175: the name of the cached archive and the directory it is looked for in.\<close>

definition zipFileName ::
  "prepareApplicationStageDirectoryOptions \<Rightarrow> electronDownloadOptions \<Rightarrow> string" where
  "zipFileName prepareOptions options =
     ''electron-v'' @ js_template (dl_version options) @ ''-''
       @ platformName_str (po_platformName prepareOptions) @ ''-''
       @ js_template (dl_arch options) @ ''.zip''"

definition resolvedDistOf ::
  "pathModule \<Rightarrow> prepareApplicationStageDirectoryOptions \<Rightarrow> path \<Rightarrow> path" where
  "resolvedDistOf path prepareOptions dist =
     (if path_isAbsolute path dist then dist
      else path_resolve path (pp_projectDir (po_packager prepareOptions)) dist)"

text \<open>
  \<open>unpack\<close> (lines 168-201), in the three blocks of its body. The function assigns
  to \<open>options.cache\<close> and to its local \<open>dist\<close>: the first block (lines 171-181)
  yields the pair as it leaves them.
\<close>

definition unpack_resolveDist ::
  "pathModule \<Rightarrow> prepareApplicationStageDirectoryOptions \<Rightarrow> electronDownloadOptions
     \<Rightarrow> (electronDownloadOptions \<times> path option) io" where
  "unpack_resolveDist path prepareOptions options =
     (case configuredDist prepareOptions of
        None \<Rightarrow> io_return (options, None)
      | Some dist \<Rightarrow>
          (let zipFile = zipFileName prepareOptions options;
               resolvedDist = resolvedDistOf path prepareOptions dist
           in
           io_bind (statOrNull (path_join path [resolvedDist, zipFile]))
             (\<lambda>st. if st \<noteq> None
                    then io_return (options \<lparr> dl_cache := Present resolvedDist \<rparr>, None)
                    else io_return (options, Some dist))))"

text \<open>
  The second block (lines 183-198) yields \<open>None\<close> where the source returns from
  \<open>unpack\<close>, and the value of \<open>isFullCleanup\<close> otherwise. (The copy is asked not to
  use hard links; that option is part of the collaborator.)
\<close>

definition unpack_acquire ::
  "'i collaborators \<Rightarrow> prepareApplicationStageDirectoryOptions \<Rightarrow> electronDownloadOptions
     \<Rightarrow> string \<Rightarrow> path option \<Rightarrow> (bool option) io" where
  "unpack_acquire env prepareOptions options distMacOsAppName dist =
     (let packager = po_packager prepareOptions;
          appOutDir = po_appOutDir prepareOptions
      in
      case dist of
        None \<Rightarrow>
          if ext_isSafeToUnpackElectronOnRemoteBuildServer env packager
          then io_return None
          else
            io_bind
              (executeAppBuilder env
                 [Str ''unpack-electron'', Str ''--configuration'', Json [options],
                  Str ''--output'', Str appOutDir,
                  Str ''--distMacOsAppName'', Str distMacOsAppName])
              (\<lambda>_. io_return (Some False))
      | Some d \<Rightarrow>
          (let source = pp_getElectronSrcDir packager d;
               destination = pp_getElectronDestinationDir packager appOutDir
           in
           io_bind (emptyDir env appOutDir)
             (\<lambda>_. io_bind (copyDir env source destination)
                (\<lambda>_. io_return (Some True)))))"

text \<open>The whole function; it returns the options as the call left them.\<close>

definition unpack ::
  "pathModule \<Rightarrow> 'i collaborators \<Rightarrow> prepareApplicationStageDirectoryOptions
     \<Rightarrow> electronDownloadOptions \<Rightarrow> string \<Rightarrow> electronDownloadOptions io" where
  "unpack path env prepareOptions options0 distMacOsAppName =
     io_bind (unpack_resolveDist path prepareOptions options0)
       (\<lambda>(options, dist).
          io_bind (unpack_acquire env prepareOptions options distMacOsAppName dist)
            (\<lambda>flow. case flow of
               None \<Rightarrow> io_return options
             | Some isFullCleanup \<Rightarrow>
                 io_bind (cleanupAfterUnpack path prepareOptions distMacOsAppName isFullCleanup)
                   (\<lambda>_. io_return options)))"

text \<open>\<open>prepareApplicationStageDirectory\<close> (lines 136-142); \<open>this\<close> is the framework.\<close>

definition prepareApplicationStageDirectory ::
  "pathModule \<Rightarrow> 'i collaborators \<Rightarrow> electronFramework
     \<Rightarrow> prepareApplicationStageDirectoryOptions \<Rightarrow> unit io" where
  "prepareApplicationStageDirectory path env this options =
     io_bind
       (unpack path env options
          (createDownloadOpts (pp_config (po_packager options)) (po_platformName options)
             (po_arch options) (fw_version this))
          (fw_distMacOsAppName this))
       (\<lambda>_. if cfg_downloadAlternateFFmpeg (pp_config (po_packager options)) = Some True
             then replaceFFMPEG env (po_appOutDir options) (po_version options)
                    (po_platformName options) (po_arch options)
             else io_return ())"

subsection \<open>Observations on a run\<close>

text \<open>
  Which strategy a run of \<open>unpack\<close> used, read off the operations it performed: the
  local copy calls \<open>copyDir\<close>, the delegated acquisition calls the unpack worker, and
  a skipped acquisition calls neither.
\<close>

definition usedLocalCopy :: "action list \<Rightarrow> bool" where
  "usedLocalCopy acts = list_ex (\<lambda>a. case a of CopyDir s d \<Rightarrow> True | _ \<Rightarrow> False) acts"

definition usedDelegated :: "action list \<Rightarrow> bool" where
  "usedDelegated acts = list_ex (\<lambda>a. case a of ExecuteAppBuilder args \<Rightarrow> True | _ \<Rightarrow> False) acts"

definition isAcquisition :: "action \<Rightarrow> bool" where
  "isAcquisition a = (case a of ExecuteAppBuilder args \<Rightarrow> True | CopyDir s d \<Rightarrow> True | _ \<Rightarrow> False)"

text \<open>The three cleanup operations of \<open>cleanupAfterUnpack\<close> (lines 209, 210 and 213).\<close>

definition removeDefaultApp ::
  "pathModule \<Rightarrow> prepareApplicationStageDirectoryOptions \<Rightarrow> string \<Rightarrow> action" where
  "removeDefaultApp path prepareOptions distMacOsAppName =
     UnlinkIfExists (path_join path
       [if pp_platform (po_packager prepareOptions) = MAC
        then path_join path
               [po_appOutDir prepareOptions, distMacOsAppName, ''Contents'', ''Resources'']
        else path_join path [po_appOutDir prepareOptions, ''resources''],
        ''default_app.asar''])"

definition removeVersionMarker :: "pathModule \<Rightarrow> prepareApplicationStageDirectoryOptions \<Rightarrow> action" where
  "removeVersionMarker path prepareOptions =
     UnlinkIfExists (path_join path [po_appOutDir prepareOptions, ''version''])"

definition renameLicense :: "pathModule \<Rightarrow> prepareApplicationStageDirectoryOptions \<Rightarrow> action" where
  "renameLicense path prepareOptions =
     Rename (path_join path [po_appOutDir prepareOptions, ''LICENSE''])
       (path_join path [po_appOutDir prepareOptions, ''LICENSE.electron.txt''])"

text \<open>
  The inputs on which \<open>unpack\<close> returns at line 186: the build server unpacks Electron
  itself, and no directory is left to copy from (none is configured, or the configured
  one holds the cached archive).
\<close>

definition acquisitionSkipped ::
  "pathModule \<Rightarrow> 'i collaborators \<Rightarrow> prepareApplicationStageDirectoryOptions
     \<Rightarrow> electronDownloadOptions \<Rightarrow> fs \<Rightarrow> bool" where
  "acquisitionSkipped path env prepareOptions options fs =
     (ext_isSafeToUnpackElectronOnRemoteBuildServer env (po_packager prepareOptions) \<and>
      (case configuredDist prepareOptions of
         None \<Rightarrow> True
       | Some dist \<Rightarrow>
           path_join path
             [resolvedDistOf path prepareOptions dist, zipFileName prepareOptions options]
             \<in> set fs))"

text \<open>The entries on which the callback of the pruning pass calls \<open>fs.rm\<close> (lines 100-106).\<close>

definition prunable :: "string list \<Rightarrow> string \<Rightarrow> bool" where
  "prunable wantedLanguages file =
     (endsWith file langFileExt \<and>
      take (length file - length langFileExt) file \<notin> set wantedLanguages)"

subsection \<open>Concrete inputs\<close>

text \<open>
  A path module for the concrete runs: the functions of Node's \<open>path.posix\<close>, as its
  documentation gives them. A path is split at the separators; empty and \<open>.\<close>
  segments are dropped and \<open>..\<close> takes the segment before it away (above a relative
  start it stays); \<open>normalize\<close> keeps a leading and a trailing separator; \<open>join\<close>
  normalises its non-empty segments joined by the separator; \<open>resolve\<close> goes back from
  the last path to the first absolute one, the working directory at the end, and drops
  the trailing separator.
\<close>

fun splitSep :: "string \<Rightarrow> string list" where
  "splitSep [] = [[]]"
| "splitSep (c # cs) =
     (if c = CHR ''/'' then [] # splitSep cs
      else (case splitSep cs of [] \<Rightarrow> [[c]] | s # ss \<Rightarrow> (c # s) # ss))"

fun joinSep :: "string list \<Rightarrow> string" where
  "joinSep [] = []"
| "joinSep [s] = s"
| "joinSep (s # ss) = s @ ''/'' @ joinSep ss"

definition normalizeStep :: "bool \<Rightarrow> string list \<Rightarrow> string \<Rightarrow> string list" where
  "normalizeStep allowAboveRoot kept seg =
     (if seg = [] \<or> seg = ''.'' then kept
      else if seg = ''..'' then
        (case kept of
           [] \<Rightarrow> if allowAboveRoot then [''..''] else []
         | s # rest \<Rightarrow> if s = ''..'' then ''..'' # kept else rest)
      else seg # kept)"

definition normalizeString :: "bool \<Rightarrow> string \<Rightarrow> string" where
  "normalizeString allowAboveRoot p =
     joinSep (rev (foldl (normalizeStep allowAboveRoot) [] (splitSep p)))"

definition posix_isAbsolute :: "path \<Rightarrow> bool" where
  "posix_isAbsolute p = (case p of [] \<Rightarrow> False | c # _ \<Rightarrow> c = CHR ''/'')"

definition posix_normalize :: "path \<Rightarrow> path" where
  "posix_normalize p =
     (if p = [] then ''.''
      else
        let isAbs = posix_isAbsolute p;
            trailing = (last p = CHR ''/'');
            q = normalizeString (\<not> isAbs) p
        in
        if q = [] then (if isAbs then ''/'' else if trailing then ''./'' else ''.'')
        else (if isAbs then ''/'' else []) @ q @ (if trailing then ''/'' else []))"

definition posix_join :: "string list \<Rightarrow> path" where
  "posix_join segments =
     (let joined = joinSep (filter (\<lambda>s. s \<noteq> []) segments) in
      if joined = [] then ''.'' else posix_normalize joined)"

definition posix_resolve :: "path \<Rightarrow> path \<Rightarrow> path \<Rightarrow> path" where
  "posix_resolve cwd base p =
     ''/'' @ normalizeString False
       (joinSep (filter (\<lambda>s. s \<noteq> [])
          (if posix_isAbsolute p then [p]
           else if posix_isAbsolute base then [base, p]
           else [cwd, base, p])))"

definition ex_path :: pathModule where
  "ex_path = \<lparr> path_join = posix_join, path_resolve = posix_resolve ''/proj'',
     path_isAbsolute = posix_isAbsolute \<rparr>"

text \<open>
  A project in \<open>/proj\<close> staged in \<open>/out\<close>, with collaborators that succeed: the unpack
  worker, the copy, the bundle constructor and the codec replacement leave the file
  system as it is, and \<open>emptyDir\<close> removes what lies below the directory.
\<close>

definition ex_config :: configuration where
  "ex_config = \<lparr> cfg_electronVersion = None, cfg_electronBranding = None,
     cfg_electronDownload = None, cfg_electronDist = None, cfg_downloadAlternateFFmpeg = None \<rparr>"

definition ex_packager :: "platform \<Rightarrow> configuration \<Rightarrow> platformPackager" where
  "ex_packager p c = \<lparr> pp_platform = p, pp_config = c, pp_projectDir = ''/proj'',
     pp_productFilename = ''My App'', pp_executableName = ''my-app'', pp_electronLanguages = None,
     pp_getResourcesDir = (\<lambda>out. posix_join [out, ''My App.app'', ''Contents'', ''Resources'']),
     pp_getElectronSrcDir = (\<lambda>dist. posix_resolve ''/proj'' ''/proj'' dist),
     pp_getElectronDestinationDir = (\<lambda>out. out) \<rparr>"

definition ex_collaborators :: "bool \<Rightarrow> unit collaborators" where
  "ex_collaborators safe = \<lparr> ext_isSafeToUnpackElectronOnRemoteBuildServer = (\<lambda>_. safe),
      ext_executeAppBuilder = (\<lambda>_ fs. Inr fs),
      ext_emptyDir = (\<lambda>dir fs. Inr (filter (\<lambda>q. \<not> under dir q) fs)),
      ext_copyDir = (\<lambda>_ _ fs. Inr fs),
      ext_createMacApp = (\<lambda>_ _ _ _ fs. Inr fs),
      ext_replaceFFMPEG = (\<lambda>_ _ _ _ fs. fs) \<rparr>"

definition ex_prepare :: "platform \<Rightarrow> electronPlatformName \<Rightarrow> configuration
    \<Rightarrow> prepareApplicationStageDirectoryOptions" where
  "ex_prepare p name c = \<lparr> po_packager = ex_packager p c, po_appOutDir = ''/out'',
     po_platformName = name, po_arch = ''x64'', po_version = ''1.0.0'' \<rparr>"

definition ex_options :: "electronPlatformName \<Rightarrow> electronDownloadOptions" where
  "ex_options name = createDownloadOpts ex_config name ''x64'' ''30.0.0''"

definition ex_hook :: "platform \<Rightarrow> electronPlatformName \<Rightarrow> languages option
    \<Rightarrow> unit beforeCopyExtraFilesOptions" where
  "ex_hook p name langs = \<lparr> bc_packager = ex_packager p ex_config \<lparr> pp_electronLanguages := langs \<rparr>,
     bc_appOutDir = ''/out'', bc_asarIntegrity = None, bc_platformName = name \<rparr>"

definition ex_readers :: "unit versionReaders" where
  "ex_readers = \<lparr> ext_getElectronVersionFromInstalled = (\<lambda>_. Inr None),
      ext_computeElectronVersion = (\<lambda>_ _. Inr ''30.0.0'') \<rparr>"

definition ex_project :: "bool \<Rightarrow> unit packager" where
  "ex_project prepacked = \<lparr> pkg_projectDir = ''/proj'', pkg_isPrepackedAppAsar = prepacked,
     pkg_metadata = () \<rparr>"

text \<open>
  A bundle constructor that renames the bundle \<open>Electron.app\<close> of the distribution to
  \<open>My App.app\<close>, and the distribution as it is unpacked.
\<close>

definition ex_renaming :: "unit collaborators" where
  "ex_renaming = (ex_collaborators False)
     \<lparr> ext_createMacApp :=
         (\<lambda>_ out _ _ fs. Inr (fs_move (out @ ''/Electron.app'') (out @ ''/My App.app'') fs)) \<rparr>"

definition ex_unpacked :: fs where
  "ex_unpacked =
     [''/out'', ''/out/Electron.app'', ''/out/Electron.app/Contents'',
      ''/out/Electron.app/Contents/Resources'',
      ''/out/Electron.app/Contents/Resources/en.lproj'',
      ''/out/Electron.app/Contents/Resources/electron.icns'']"

definition ex_resources :: path where
  "ex_resources = ''/out/My App.app/Contents/Resources''"

definition ex_bundle :: fs where
  "ex_bundle =
     [''/out'', ''/out/My App.app'', ''/out/My App.app/Contents'', ex_resources,
      ex_resources @ ''/fr.lproj'', ex_resources @ ''/readme.txt'',
      ex_resources @ ''/de.lproj'', ex_resources @ ''/de.lproj/locale.pak'',
      ex_resources @ ''/en.lproj'', ex_resources @ ''/en.lproj/locale.pak'']"

section \<open>Properties\<close>

subsection \<open>Evaluation and auxiliary facts\<close>

lemmas run_defs =
  unpack_def unpack_resolveDist_def unpack_acquire_def cleanupAfterUnpack_def configuredDist_def
  zipFileName_def resolvedDistOf_def io_bind_def io_return_def io_catch_def statOrNull_def
  executeAppBuilder_def copyDir_def emptyDir_def external_def rename_def unlinkIfExists_def
  fs_move_def under_def js_template_def platformName_str_def
  createDownloadOpts_def spread_def spreadProperty_def noDownloadOptions_def Let_def
  ex_path_def posix_join_def posix_resolve_def posix_isAbsolute_def posix_normalize_def
  normalizeString_def normalizeStep_def
  ex_config_def ex_packager_def ex_collaborators_def ex_prepare_def ex_options_def

lemmas observation_defs =
  usedLocalCopy_def usedDelegated_def isAcquisition_def removeDefaultApp_def
  removeVersionMarker_def renameLicense_def

lemma fs_move_dst: "src \<in> set fs \<Longrightarrow> dst \<in> set (fs_move src dst fs)"
proof -
  assume "src \<in> set fs"
  then have "src \<in> set (filter (\<lambda>q. if q = src \<or> under src q then True
                                       else q \<noteq> dst \<and> \<not> under dst q) fs)"
    by simp
  then have "(\<lambda>q. if q = src \<or> under src q then dst @ drop (length src) q else q) src
               \<in> set (fs_move src dst fs)"
    unfolding fs_move_def set_map by (rule imageI)
  then show ?thesis by simp
qed

lemma cleanupAfterUnpack_result: "result (cleanupAfterUnpack P po n b fs) = Inr ()"
  by (simp add: cleanupAfterUnpack_def Let_def io_return_def io_catch_def unlinkIfExists_def)

lemma cleanupAfterUnpack_actions:
  "actions (cleanupAfterUnpack P po n b fs) =
     (if b then [removeDefaultApp P po n, removeVersionMarker P po] else []) @
     (if pp_platform (po_packager po) = MAC then [] else [renameLicense P po])"
  by (simp add: cleanupAfterUnpack_def Let_def io_return_def io_catch_def unlinkIfExists_def
        rename_def removeDefaultApp_def removeVersionMarker_def renameLicense_def)

lemma unpack_resolveDist_outcome:
  "unpack_resolveDist P po o0 fs =
     (case configuredDist po of
        None \<Rightarrow> \<lparr> result = Inr (o0, None), files = fs, actions = [] \<rparr>
      | Some d \<Rightarrow>
          if path_join P [resolvedDistOf P po d, zipFileName po o0] \<in> set fs
          then \<lparr> result = Inr (o0 \<lparr> dl_cache := Present (resolvedDistOf P po d) \<rparr>, None), files = fs,
                 actions = [StatOrNull (path_join P [resolvedDistOf P po d, zipFileName po o0])] \<rparr>
          else \<lparr> result = Inr (o0, Some d), files = fs,
                 actions = [StatOrNull (path_join P [resolvedDistOf P po d, zipFileName po o0])] \<rparr>)"
  by (simp add: unpack_resolveDist_def Let_def io_bind_def io_return_def statOrNull_def
        split: option.splits)

lemma unpack_skip:
  assumes "unpack_resolveDist P po o0 fs = \<lparr> result = Inr (opts, None), files = fs, actions = pre \<rparr>"
    and "ext_isSafeToUnpackElectronOnRemoteBuildServer env (po_packager po)"
  shows "unpack P env po o0 n fs = \<lparr> result = Inr opts, files = fs, actions = pre \<rparr>"
  using assms by (simp add: unpack_def unpack_acquire_def io_bind_def io_return_def)

lemma unpack_delegated:
  assumes "unpack_resolveDist P po o0 fs = \<lparr> result = Inr (opts, None), files = fs, actions = pre \<rparr>"
    and "\<not> ext_isSafeToUnpackElectronOnRemoteBuildServer env (po_packager po)"
    and "args = [Str ''unpack-electron'', Str ''--configuration'', Json [opts],
                 Str ''--output'', Str (po_appOutDir po), Str ''--distMacOsAppName'', Str n]"
  shows "unpack P env po o0 n fs =
     (case ext_executeAppBuilder env args fs of
        Inl e \<Rightarrow> \<lparr> result = Inl e, files = fs, actions = pre @ [ExecuteAppBuilder args] \<rparr>
      | Inr fs1 \<Rightarrow>
          \<lparr> result = Inr opts, files = files (cleanupAfterUnpack P po n False fs1),
            actions = pre @ ExecuteAppBuilder args # actions (cleanupAfterUnpack P po n False fs1) \<rparr>)"
  using assms
  by (simp add: unpack_def unpack_acquire_def io_bind_def io_return_def Let_def
        executeAppBuilder_def external_def cleanupAfterUnpack_result split: sum.splits)

lemma unpack_localCopy:
  assumes "unpack_resolveDist P po o0 fs = \<lparr> result = Inr (opts, Some d), files = fs, actions = pre \<rparr>"
    and "source = pp_getElectronSrcDir (po_packager po) d"
    and "destination = pp_getElectronDestinationDir (po_packager po) (po_appOutDir po)"
  shows "unpack P env po o0 n fs =
     (case ext_emptyDir env (po_appOutDir po) fs of
        Inl e \<Rightarrow> \<lparr> result = Inl e, files = fs, actions = pre @ [EmptyDir (po_appOutDir po)] \<rparr>
      | Inr fs0 \<Rightarrow>
         (case ext_copyDir env source destination fs0 of
            Inl e \<Rightarrow>
              \<lparr> result = Inl e, files = fs0,
                actions = pre @ [EmptyDir (po_appOutDir po), CopyDir source destination] \<rparr>
          | Inr fs1 \<Rightarrow>
              \<lparr> result = Inr opts, files = files (cleanupAfterUnpack P po n True fs1),
                actions = pre @ EmptyDir (po_appOutDir po) # CopyDir source destination
                            # actions (cleanupAfterUnpack P po n True fs1) \<rparr>))"
  using assms
  by (simp add: unpack_def unpack_acquire_def io_bind_def io_return_def Let_def
        copyDir_def emptyDir_def external_def cleanupAfterUnpack_result split: sum.splits)

lemma unpack_resolveDist_shape:
  "\<exists>opts dist pre.
     unpack_resolveDist P po o0 fs = \<lparr> result = Inr (opts, dist), files = fs, actions = pre \<rparr> \<and>
     (pre = [] \<or> (\<exists>p. pre = [StatOrNull p]))"
  by (cases "configuredDist po") (simp_all add: unpack_resolveDist_outcome)

lemma finalizer_after_delegated:
  assumes r: "unpack_resolveDist P po o0 fs = \<lparr> result = Inr (opts, None), files = fs, actions = pre \<rparr>"
    and pre: "pre = [] \<or> (\<exists>p. pre = [StatOrNull p])"
    and unsafe: "\<not> ext_isSafeToUnpackElectronOnRemoteBuildServer env (po_packager po)"
    and ok: "result (unpack P env po o0 n fs) = Inr o'"
  shows "\<exists>pre' fs1.
         pre' \<noteq> [] \<and> isAcquisition (last pre') \<and>
         actions (unpack P env po o0 n fs) =
           pre' @ actions (cleanupAfterUnpack P po n (usedLocalCopy (actions (unpack P env po o0 n fs))) fs1) \<and>
         files (unpack P env po o0 n fs) =
           files (cleanupAfterUnpack P po n (usedLocalCopy (actions (unpack P env po o0 n fs))) fs1)"
proof -
  let ?a = "ExecuteAppBuilder [Str ''unpack-electron'', Str ''--configuration'', Json [opts],
           Str ''--output'', Str (po_appOutDir po), Str ''--distMacOsAppName'', Str n]"
  note u = unpack_delegated [OF r unsafe refl, where n = n]
  from ok u obtain fs1 where
    a: "actions (unpack P env po o0 n fs) = (pre @ [?a]) @ actions (cleanupAfterUnpack P po n False fs1)"
    and f: "files (unpack P env po o0 n fs) = files (cleanupAfterUnpack P po n False fs1)"
    by (auto split: sum.splits)
  from a pre have nc: "usedLocalCopy (actions (unpack P env po o0 n fs)) = False"
    by (auto simp: cleanupAfterUnpack_actions usedLocalCopy_def removeDefaultApp_def
          removeVersionMarker_def renameLicense_def)
  have "pre @ [?a] \<noteq> [] \<and> isAcquisition (last (pre @ [?a]))"
    by (simp add: isAcquisition_def)
  with a f show ?thesis unfolding nc by blast
qed

lemma finalizer_after_localCopy:
  assumes r: "unpack_resolveDist P po o0 fs = \<lparr> result = Inr (opts, Some d), files = fs, actions = pre \<rparr>"
    and ok: "result (unpack P env po o0 n fs) = Inr o'"
  shows "\<exists>pre' fs1.
         pre' \<noteq> [] \<and> isAcquisition (last pre') \<and>
         actions (unpack P env po o0 n fs) =
           pre' @ actions (cleanupAfterUnpack P po n (usedLocalCopy (actions (unpack P env po o0 n fs))) fs1) \<and>
         files (unpack P env po o0 n fs) =
           files (cleanupAfterUnpack P po n (usedLocalCopy (actions (unpack P env po o0 n fs))) fs1)"
proof -
  let ?e = "EmptyDir (po_appOutDir po)"
  let ?c = "CopyDir (pp_getElectronSrcDir (po_packager po) d)
           (pp_getElectronDestinationDir (po_packager po) (po_appOutDir po))"
  note u = unpack_localCopy [OF r refl refl, where env = env and n = n]
  from ok u obtain fs1 where
    a: "actions (unpack P env po o0 n fs) = (pre @ [?e, ?c]) @ actions (cleanupAfterUnpack P po n True fs1)"
    and f: "files (unpack P env po o0 n fs) = files (cleanupAfterUnpack P po n True fs1)"
    by (auto split: sum.splits)
  from a have c: "usedLocalCopy (actions (unpack P env po o0 n fs)) = True"
    by (simp add: usedLocalCopy_def)
  have "pre @ [?e, ?c] \<noteq> [] \<and> isAcquisition (last (pre @ [?e, ?c]))"
    by (simp add: isAcquisition_def)
  with a f show ?thesis unfolding c by blast
qed

lemma nothing_when_skipped:
  assumes r: "unpack_resolveDist P po o0 fs = \<lparr> result = Inr (opts, None), files = fs, actions = pre \<rparr>"
    and pre: "pre = [] \<or> (\<exists>p. pre = [StatOrNull p])"
    and safe: "ext_isSafeToUnpackElectronOnRemoteBuildServer env (po_packager po)"
  shows "(\<exists>opts. result (unpack P env po o0 n fs) = Inr opts) \<and>
      files (unpack P env po o0 n fs) = fs \<and>
      list_all (\<lambda>a. case a of StatOrNull p \<Rightarrow> True | _ \<Rightarrow> False) (actions (unpack P env po o0 n fs))"
proof -
  from r safe have "unpack P env po o0 n fs = \<lparr> result = Inr opts, files = fs, actions = pre \<rparr>"
    by (rule unpack_skip)
  with pre show ?thesis by auto
qed

lemma pruneLocale_outcome:
  "pruneLocale P wanted res file fs =
     (if prunable wanted file
      then \<lparr> result = Inr (), files = fs_remove (path_join P [res, file]) fs,
             actions = [Rm (path_join P [res, file])] \<rparr>
      else \<lparr> result = Inr (), files = fs, actions = [] \<rparr>)"
  by (simp add: pruneLocale_def prunable_def Let_def io_return_def rm_def)

lemma promise_all_pruneLocale:
  "promise_all (map (pruneLocale P wanted res) names) fs =
     \<lparr> result = Inr (),
       files = foldl (\<lambda>fs' file. fs_remove (path_join P [res, file]) fs') fs (filter (prunable wanted) names),
       actions = map (\<lambda>file. Rm (path_join P [res, file])) (filter (prunable wanted) names) \<rparr>"
proof (induction names arbitrary: fs)
  case Nil
  show ?case by (simp add: io_return_def)
next
  case (Cons name names)
  show ?case
  proof (cases "prunable wanted name")
    case True
    then have "pruneLocale P wanted res name fs =
        \<lparr> result = Inr (), files = fs_remove (path_join P [res, name]) fs,
          actions = [Rm (path_join P [res, name])] \<rparr>"
      by (simp add: pruneLocale_outcome)
    with Cons.IH [of "fs_remove (path_join P [res, name]) fs"] True show ?thesis
      by (simp add: Let_def)
  next
    case False
    then have "pruneLocale P wanted res name fs = \<lparr> result = Inr (), files = fs, actions = [] \<rparr>"
      by (simp add: pruneLocale_outcome)
    with Cons.IH [of fs] False show ?thesis
      by (simp add: Let_def)
  qed
qed

lemma entry_not_removed:
  assumes "isEntry d q"
  shows "(q \<noteq> (d @ ''/'' @ n) \<and> \<not> under ((d @ ''/'' @ n)) q) \<longleftrightarrow> entryName d q \<noteq> n"
proof -
  from assms have "take (Suc (length d)) q = d @ ''/''"
    by (simp add: isEntry_def under_def)
  then have "take (Suc (length d)) q @ drop (Suc (length d)) q = (d @ ''/'') @ entryName d q"
    by (simp only: entryName_def)
  then have q: "q = d @ ''/'' @ entryName d q"
    by (simp only: append_take_drop_id append_assoc)
  from assms have nosep: "CHR ''/'' \<notin> set (entryName d q)"
    by (simp add: isEntry_def)
  have "\<not> under ((d @ ''/'' @ n)) q"
  proof
    assume "under ((d @ ''/'' @ n)) q"
    then have "take (Suc (length (d @ ''/'' @ n))) (d @ ''/'' @ entryName d q) = (d @ ''/'' @ n) @ ''/''"
      using q by (simp add: under_def)
    then have "take (Suc (length n)) (entryName d q) = n @ ''/''"
      by simp
    then have "CHR ''/'' \<in> set (take (Suc (length n)) (entryName d q))"
      by simp
    then have "CHR ''/'' \<in> set (entryName d q)"
      by (rule in_set_takeD)
    with nosep show False by contradiction
  qed
  moreover have "q = (d @ ''/'' @ n) \<longleftrightarrow> entryName d q = n"
  proof
    assume "q = (d @ ''/'' @ n)"
    with q have "d @ ''/'' @ entryName d q = d @ ''/'' @ n" by simp
    then show "entryName d q = n" by simp
  next
    assume "entryName d q = n"
    with q show "q = (d @ ''/'' @ n)" by simp
  qed
  ultimately show ?thesis by simp
qed

lemma fs_entries_remove:
  "fs_entries d (fs_remove ((d @ ''/'' @ n)) fs) = filter (\<lambda>m. m \<noteq> n) (fs_entries d fs)"
proof -
  have "filter (isEntry d) (fs_remove ((d @ ''/'' @ n)) fs) =
        filter (\<lambda>q. entryName d q \<noteq> n) (filter (isEntry d) fs)"
    unfolding fs_remove_def filter_filter
  proof (rule filter_cong)
    show "fs = fs" by (rule refl)
  next
    fix q
    show "((q \<noteq> (d @ ''/'' @ n) \<and> \<not> under ((d @ ''/'' @ n)) q) \<and> isEntry d q) =
          (isEntry d q \<and> entryName d q \<noteq> n)"
      using entry_not_removed [of d q n] by blast
  qed
  then show ?thesis
    by (simp add: fs_entries_def filter_map comp_def)
qed

lemma spreadProperty_present: "over \<noteq> Absent \<Longrightarrow> spreadProperty base over = over"
  by (cases over) (simp_all add: spreadProperty_def)

lemma spreadProperty_absent: "spreadProperty Absent over = over"
  by (cases over) (simp_all add: spreadProperty_def)

subsection \<open>Cleanup after acquisition\<close>

text \<open>
  Claim C1, as amended. For every run of \<open>unpack\<close> that completes, the two marker
  removals (of \<open>default_app.asar\<close> and of the top-level \<open>version\<close> file) are performed
  if and only if the local-copy strategy was used. The \<open>LICENSE\<close> rename is not tied to
  the strategy: it is attempted if and only if the platform is not macOS and the
  acquisition was not skipped, so after a delegated acquisition as well as after a local
  copy. After a skipped acquisition none of the three is performed.
\<close>

theorem cleanup_actions_by_strategy:
  assumes ok: "result (unpack P env po o0 n fs) = Inr o'"
  shows "(removeDefaultApp P po n \<in> set (actions (unpack P env po o0 n fs))
            \<longleftrightarrow> usedLocalCopy (actions (unpack P env po o0 n fs))) \<and>
         (removeVersionMarker P po \<in> set (actions (unpack P env po o0 n fs))
            \<longleftrightarrow> usedLocalCopy (actions (unpack P env po o0 n fs))) \<and>
         (renameLicense P po \<in> set (actions (unpack P env po o0 n fs))
            \<longleftrightarrow> pp_platform (po_packager po) \<noteq> MAC \<and>
                (usedLocalCopy (actions (unpack P env po o0 n fs)) \<or>
                 usedDelegated (actions (unpack P env po o0 n fs))))"
proof -
  obtain opts dist pre where
    r: "unpack_resolveDist P po o0 fs = \<lparr> result = Inr (opts, dist), files = fs, actions = pre \<rparr>"
    and pre: "pre = [] \<or> (\<exists>p. pre = [StatOrNull p])"
    using unpack_resolveDist_shape by blast
  note defs = usedLocalCopy_def usedDelegated_def removeDefaultApp_def removeVersionMarker_def
    renameLicense_def
  show ?thesis
  proof (cases dist)
    case None
    show ?thesis
    proof (cases "ext_isSafeToUnpackElectronOnRemoteBuildServer env (po_packager po)")
      case True
      from r [unfolded None] True have "unpack P env po o0 n fs = \<lparr> result = Inr opts, files = fs, actions = pre \<rparr>"
        by (rule unpack_skip)
      with pre show ?thesis by (auto simp: defs)
    next
      case False
      note u = unpack_delegated [OF r [unfolded None] False refl, where n = n]
      from ok u obtain fs1 where
        "actions (unpack P env po o0 n fs) =
           pre @ ExecuteAppBuilder [Str ''unpack-electron'', Str ''--configuration'', Json [opts],
                 Str ''--output'', Str (po_appOutDir po), Str ''--distMacOsAppName'', Str n]
             # actions (cleanupAfterUnpack P po n False fs1)"
        by (auto split: sum.splits)
      with pre show ?thesis by (auto simp: cleanupAfterUnpack_actions defs)
    qed
  next
    case (Some d)
    note u = unpack_localCopy [OF r [unfolded Some] refl refl, where env = env and n = n]
    from ok u obtain fs1 where
      "actions (unpack P env po o0 n fs) =
         pre @ EmptyDir (po_appOutDir po)
           # CopyDir (pp_getElectronSrcDir (po_packager po) d)
               (pp_getElectronDestinationDir (po_packager po) (po_appOutDir po))
           # actions (cleanupAfterUnpack P po n True fs1)"
      by (auto split: sum.splits)
    with pre show ?thesis by (auto simp: cleanupAfterUnpack_actions defs)
  qed
qed



text \<open>
  The theorem at a local copy for Linux: \<open>electronDist\<close> names a directory without
  the cached archive, the run completes, and all three cleanup operations are performed.
\<close>

theorem cleanup_actions_by_strategy_witness:
  "result (unpack ex_path (ex_collaborators False)
             (ex_prepare LINUX linux (ex_config \<lparr> cfg_electronDist := Some (DistPath ''dist'') \<rparr>))
             (ex_options linux) ''Electron.app'' [''/out'', ''/out/LICENSE'', ''/out/version''])
     = Inr (ex_options linux) \<and>
   usedLocalCopy (actions (unpack ex_path (ex_collaborators False)
             (ex_prepare LINUX linux (ex_config \<lparr> cfg_electronDist := Some (DistPath ''dist'') \<rparr>))
             (ex_options linux) ''Electron.app'' [''/out'', ''/out/LICENSE'', ''/out/version''])) \<and>
   UnlinkIfExists ''/out/resources/default_app.asar''
     \<in> set (actions (unpack ex_path (ex_collaborators False)
             (ex_prepare LINUX linux (ex_config \<lparr> cfg_electronDist := Some (DistPath ''dist'') \<rparr>))
             (ex_options linux) ''Electron.app'' [''/out'', ''/out/LICENSE'', ''/out/version''])) \<and>
   UnlinkIfExists ''/out/version''
     \<in> set (actions (unpack ex_path (ex_collaborators False)
             (ex_prepare LINUX linux (ex_config \<lparr> cfg_electronDist := Some (DistPath ''dist'') \<rparr>))
             (ex_options linux) ''Electron.app'' [''/out'', ''/out/LICENSE'', ''/out/version''])) \<and>
   Rename ''/out/LICENSE'' ''/out/LICENSE.electron.txt''
     \<in> set (actions (unpack ex_path (ex_collaborators False)
             (ex_prepare LINUX linux (ex_config \<lparr> cfg_electronDist := Some (DistPath ''dist'') \<rparr>))
             (ex_options linux) ''Electron.app'' [''/out'', ''/out/LICENSE'', ''/out/version'']))"
proof -
  let ?po = "ex_prepare LINUX linux (ex_config \<lparr> cfg_electronDist := Some (DistPath ''dist'') \<rparr>)"
  let ?run = "unpack ex_path (ex_collaborators False) ?po (ex_options linux) ''Electron.app''
                [''/out'', ''/out/LICENSE'', ''/out/version'']"
  have ok: "result ?run = Inr (ex_options linux)"
    by (simp add: run_defs)
  have copied: "usedLocalCopy (actions ?run)"
    by (simp add: run_defs usedLocalCopy_def)
  have names:
    "removeDefaultApp ex_path ?po ''Electron.app'' = UnlinkIfExists ''/out/resources/default_app.asar''"
    "removeVersionMarker ex_path ?po = UnlinkIfExists ''/out/version''"
    "renameLicense ex_path ?po = Rename ''/out/LICENSE'' ''/out/LICENSE.electron.txt''"
    "pp_platform (po_packager ?po) \<noteq> MAC"
    by (simp_all add: observation_defs run_defs)
  from cleanup_actions_by_strategy [OF ok] copied ok show ?thesis
    by (simp add: names)
qed

text \<open>
  Claim C1 as it is written fails: after a delegated acquisition for Windows the
  \<open>LICENSE\<close> rename is performed, although no local copy took place.
\<close>

theorem license_renamed_after_delegated_acquisition:
  "unpack ex_path (ex_collaborators False) (ex_prepare WINDOWS win32 ex_config) (ex_options win32)
       ''Electron.app'' [''/out'', ''/out/LICENSE'']
     = \<lparr> result = Inr (ex_options win32), files = [''/out'', ''/out/LICENSE.electron.txt''],
         actions =
           [ExecuteAppBuilder
              [Str ''unpack-electron'', Str ''--configuration'', Json [ex_options win32],
               Str ''--output'', Str ''/out'', Str ''--distMacOsAppName'', Str ''Electron.app''],
            Rename ''/out/LICENSE'' ''/out/LICENSE.electron.txt''] \<rparr> \<and>
   \<not> usedLocalCopy (actions (unpack ex_path (ex_collaborators False) (ex_prepare WINDOWS win32 ex_config)
       (ex_options win32) ''Electron.app'' [''/out'', ''/out/LICENSE''])) \<and>
   renameLicense ex_path (ex_prepare WINDOWS win32 ex_config)
     \<in> set (actions (unpack ex_path (ex_collaborators False) (ex_prepare WINDOWS win32 ex_config)
       (ex_options win32) ''Electron.app'' [''/out'', ''/out/LICENSE'']))"
  by (simp add: run_defs observation_defs)

subsection \<open>When the finalizer runs\<close>

text \<open>
  Claim C2, as amended. \<open>cleanupAfterUnpack\<close> runs as the last step of every run of
  \<open>unpack\<close> that acquired the distribution (by the worker or by the local copy) and
  completed: the operations of the run end with those of the finalizer, called with
  \<open>isFullCleanup\<close> set exactly after a local copy, right after the acquiring operation.
  When the acquisition is skipped, \<open>unpack\<close> returns before the finalizer: the run
  succeeds, leaves the file system as it was, and performs nothing but the look-up of
  the cached archive, if a distribution directory is configured.
\<close>

theorem finalizer_only_after_acquisition:
  "(acquisitionSkipped P env po o0 fs \<longrightarrow>
      (\<exists>opts. result (unpack P env po o0 n fs) = Inr opts) \<and>
      files (unpack P env po o0 n fs) = fs \<and>
      list_all (\<lambda>a. case a of StatOrNull p \<Rightarrow> True | _ \<Rightarrow> False) (actions (unpack P env po o0 n fs))) \<and>
   (\<forall>o'. \<not> acquisitionSkipped P env po o0 fs \<longrightarrow> result (unpack P env po o0 n fs) = Inr o' \<longrightarrow>
      (\<exists>pre fs1.
         pre \<noteq> [] \<and> isAcquisition (last pre) \<and>
         actions (unpack P env po o0 n fs) =
           pre @ actions (cleanupAfterUnpack P po n (usedLocalCopy (actions (unpack P env po o0 n fs))) fs1) \<and>
         files (unpack P env po o0 n fs) =
           files (cleanupAfterUnpack P po n (usedLocalCopy (actions (unpack P env po o0 n fs))) fs1)))"
proof (cases "configuredDist po")
  case None
  then have r: "unpack_resolveDist P po o0 fs = \<lparr> result = Inr (o0, None), files = fs, actions = [] \<rparr>"
    by (simp add: unpack_resolveDist_outcome)
  have sk: "acquisitionSkipped P env po o0 fs =
      ext_isSafeToUnpackElectronOnRemoteBuildServer env (po_packager po)"
    using None by (simp add: acquisitionSkipped_def)
  show ?thesis
    unfolding sk
    using nothing_when_skipped [OF r, where env = env and n = n]
        finalizer_after_delegated [OF r, where env = env and n = n]
    by blast
next
  case (Some d)
  let ?zip = "path_join P [resolvedDistOf P po d, zipFileName po o0]"
  show ?thesis
  proof (cases "?zip \<in> set fs")
    case True
    with Some have r: "unpack_resolveDist P po o0 fs =
        \<lparr> result = Inr (o0 \<lparr> dl_cache := Present (resolvedDistOf P po d) \<rparr>, None), files = fs,
          actions = [StatOrNull ?zip] \<rparr>"
      by (simp add: unpack_resolveDist_outcome)
    have sk: "acquisitionSkipped P env po o0 fs =
        ext_isSafeToUnpackElectronOnRemoteBuildServer env (po_packager po)"
      using Some True by (simp add: acquisitionSkipped_def)
    show ?thesis
      unfolding sk
      using nothing_when_skipped [OF r, where env = env and n = n]
        finalizer_after_delegated [OF r, where env = env and n = n]
      by blast
  next
    case False
    with Some have r: "unpack_resolveDist P po o0 fs =
        \<lparr> result = Inr (o0, Some d), files = fs, actions = [StatOrNull ?zip] \<rparr>"
      by (simp add: unpack_resolveDist_outcome)
    have sk: "acquisitionSkipped P env po o0 fs = False"
      using Some False by (simp add: acquisitionSkipped_def)
    show ?thesis
      unfolding sk
      using finalizer_after_localCopy [OF r, where env = env and n = n]
      by blast
  qed
qed


text \<open>
  The theorem at a skipped acquisition for Linux (first part) and at a delegated
  acquisition for Windows (second part).
\<close>

theorem finalizer_only_after_acquisition_witness:
  "acquisitionSkipped ex_path (ex_collaborators True) (ex_prepare LINUX linux ex_config) (ex_options linux)
     [''/out'', ''/out/LICENSE''] \<and>
   files (unpack ex_path (ex_collaborators True) (ex_prepare LINUX linux ex_config) (ex_options linux)
     ''Electron.app'' [''/out'', ''/out/LICENSE'']) = [''/out'', ''/out/LICENSE''] \<and>
   \<not> acquisitionSkipped ex_path (ex_collaborators False) (ex_prepare WINDOWS win32 ex_config)
     (ex_options win32) [''/out'', ''/out/LICENSE''] \<and>
   (\<exists>pre fs1. pre \<noteq> [] \<and> isAcquisition (last pre) \<and>
      actions (unpack ex_path (ex_collaborators False) (ex_prepare WINDOWS win32 ex_config)
        (ex_options win32) ''Electron.app'' [''/out'', ''/out/LICENSE'']) =
        pre @ actions (cleanupAfterUnpack ex_path (ex_prepare WINDOWS win32 ex_config) ''Electron.app''
                (usedLocalCopy (actions (unpack ex_path (ex_collaborators False)
                   (ex_prepare WINDOWS win32 ex_config) (ex_options win32) ''Electron.app''
                   [''/out'', ''/out/LICENSE'']))) fs1))"
proof -
  have skipped: "acquisitionSkipped ex_path (ex_collaborators True) (ex_prepare LINUX linux ex_config)
      (ex_options linux) [''/out'', ''/out/LICENSE'']"
    by (simp add: acquisitionSkipped_def run_defs)
  have acquired: "\<not> acquisitionSkipped ex_path (ex_collaborators False) (ex_prepare WINDOWS win32 ex_config)
      (ex_options win32) [''/out'', ''/out/LICENSE'']"
    by (simp add: acquisitionSkipped_def run_defs)
  have ok: "result (unpack ex_path (ex_collaborators False) (ex_prepare WINDOWS win32 ex_config)
      (ex_options win32) ''Electron.app'' [''/out'', ''/out/LICENSE'']) = Inr (ex_options win32)"
    by (simp add: run_defs)
  from finalizer_only_after_acquisition
         [where P = ex_path and env = "ex_collaborators True"
            and po = "ex_prepare LINUX linux ex_config" and ?o0.0 = "ex_options linux"
            and fs = "[''/out'', ''/out/LICENSE'']" and n = "''Electron.app''"]
       finalizer_only_after_acquisition
         [where P = ex_path and env = "ex_collaborators False"
            and po = "ex_prepare WINDOWS win32 ex_config" and ?o0.0 = "ex_options win32"
            and fs = "[''/out'', ''/out/LICENSE'']" and n = "''Electron.app''"]
       skipped acquired ok
  show ?thesis by blast
qed

text \<open>
  Claim C2 as it is written fails: in the skipped case for Linux the run performs no
  operation at all, while the finalizer, run on the same directory, renames
  \<open>LICENSE\<close>. So the finalizer is not run there, and it would not be a no-op.
\<close>

theorem finalizer_not_run_when_skipped:
  "unpack ex_path (ex_collaborators True) (ex_prepare LINUX linux ex_config) (ex_options linux)
       ''Electron.app'' [''/out'', ''/out/LICENSE'']
     = \<lparr> result = Inr (ex_options linux), files = [''/out'', ''/out/LICENSE''], actions = [] \<rparr> \<and>
   cleanupAfterUnpack ex_path (ex_prepare LINUX linux ex_config) ''Electron.app'' False
       [''/out'', ''/out/LICENSE'']
     = \<lparr> result = Inr (), files = [''/out'', ''/out/LICENSE.electron.txt''],
         actions = [Rename ''/out/LICENSE'' ''/out/LICENSE.electron.txt''] \<rparr>"
  by (simp add: run_defs)

subsection \<open>Version resolution\<close>

text \<open>
  Claim C3. When \<open>electronVersion\<close> is set, \<open>createElectronFrameworkSupport\<close> returns a
  framework of exactly that version, calls neither reader, and leaves the configuration
  as it was. When it is not set and the call succeeds, the configuration afterwards
  differs only in \<open>electronVersion\<close>, which holds the version of the framework returned;
  a second call on that configuration, whatever readers and packager it is given,
  returns the same framework, calls no reader and changes nothing.
\<close>

theorem version_memoized_in_configuration:
  "(\<forall>v. cfg_electronVersion configuration = Some v \<longrightarrow>
      (\<exists>fw. createElectronFrameworkSupport env configuration packager = (Inr fw, configuration, [])
         \<and> fw_version fw = v)) \<and>
   (\<forall>fw configuration' acts.
      cfg_electronVersion configuration = None \<longrightarrow>
      createElectronFrameworkSupport env configuration packager = (Inr fw, configuration', acts) \<longrightarrow>
        configuration' = configuration \<lparr> cfg_electronVersion := Some (fw_version fw) \<rparr> \<and>
        createElectronFrameworkSupport env' configuration' packager' = (Inr fw, configuration', []))"
  by (auto simp: createElectronFrameworkSupport_def Let_def newElectronFramework_def
        createBrandingOpts_def
      split: option.splits sum.splits if_splits)

text \<open>
  The theorem at a configuration with the version set, and at one where the version
  is computed from the manifest and a second call, with other readers, returns it again.
\<close>

theorem version_memoized_in_configuration_witness:
  "createElectronFrameworkSupport ex_readers (ex_config \<lparr> cfg_electronVersion := Some ''29.1.0'' \<rparr>)
       (ex_project False)
     = (Inr \<lparr> fw_name = ''electron'', fw_version = ''29.1.0'', fw_distMacOsAppName = ''Electron.app'' \<rparr>,
        ex_config \<lparr> cfg_electronVersion := Some ''29.1.0'' \<rparr>, []) \<and>
   createElectronFrameworkSupport ex_readers ex_config (ex_project False)
     = (Inr \<lparr> fw_name = ''electron'', fw_version = ''30.0.0'', fw_distMacOsAppName = ''Electron.app'' \<rparr>,
        ex_config \<lparr> cfg_electronVersion := Some ''30.0.0'' \<rparr>, [ComputeElectronVersion ''/proj'']) \<and>
   createElectronFrameworkSupport
       \<lparr> ext_getElectronVersionFromInstalled = (\<lambda>_. Inl (Failed ''unreadable'')),
         ext_computeElectronVersion = (\<lambda>_ _. Inl (Failed ''unreadable'')) \<rparr>
       (ex_config \<lparr> cfg_electronVersion := Some ''30.0.0'' \<rparr>) (ex_project True)
     = (Inr \<lparr> fw_name = ''electron'', fw_version = ''30.0.0'', fw_distMacOsAppName = ''Electron.app'' \<rparr>,
        ex_config \<lparr> cfg_electronVersion := Some ''30.0.0'' \<rparr>, [])"
proof -
  let ?fw = "\<lparr> fw_name = ''electron'', fw_version = ''30.0.0'', fw_distMacOsAppName = ''Electron.app'' \<rparr>"
  have unset: "cfg_electronVersion ex_config = None"
    by (simp add: ex_config_def)
  have first: "createElectronFrameworkSupport ex_readers ex_config (ex_project False)
      = (Inr ?fw, ex_config \<lparr> cfg_electronVersion := Some ''30.0.0'' \<rparr>,
         [ComputeElectronVersion ''/proj''])"
    by (simp add: createElectronFrameworkSupport_def newElectronFramework_def createBrandingOpts_def
          js_or_def ex_readers_def ex_config_def ex_project_def)
  have configured: "createElectronFrameworkSupport ex_readers
        (ex_config \<lparr> cfg_electronVersion := Some ''29.1.0'' \<rparr>) (ex_project False)
      = (Inr \<lparr> fw_name = ''electron'', fw_version = ''29.1.0'', fw_distMacOsAppName = ''Electron.app'' \<rparr>,
         ex_config \<lparr> cfg_electronVersion := Some ''29.1.0'' \<rparr>, [])"
    by (simp add: createElectronFrameworkSupport_def newElectronFramework_def createBrandingOpts_def
          js_or_def ex_config_def)
  from version_memoized_in_configuration
         [of ex_config ex_readers "ex_project False"
            "\<lparr> ext_getElectronVersionFromInstalled = (\<lambda>_. Inl (Failed ''unreadable'')),
               ext_computeElectronVersion = (\<lambda>_ _. Inl (Failed ''unreadable'')) \<rparr>"
            "ex_project True"]
       unset first
  have "createElectronFrameworkSupport
       \<lparr> ext_getElectronVersionFromInstalled = (\<lambda>_. Inl (Failed ''unreadable'')),
         ext_computeElectronVersion = (\<lambda>_ _. Inl (Failed ''unreadable'')) \<rparr>
       (ex_config \<lparr> cfg_electronVersion := Some ''30.0.0'' \<rparr>) (ex_project True)
     = (Inr ?fw, ex_config \<lparr> cfg_electronVersion := Some ''30.0.0'' \<rparr>, [])"
    by blast
  with first configured show ?thesis by simp
qed

text \<open>
  Claim C4. For a pre-packed archive with no \<open>electronVersion\<close> configured, when the
  installed-package reader finds no version, \<open>createElectronFrameworkSupport\<close> throws
  the error "Cannot compute electron version for prepacked asar": it returns no
  framework, after the one call of that reader, and does not touch the configuration.
\<close>

theorem prepacked_without_version_fails:
  assumes "cfg_electronVersion configuration = None"
    and "pkg_isPrepackedAppAsar packager"
    and "ext_getElectronVersionFromInstalled env (pkg_projectDir packager) = Inr None"
  shows "createElectronFrameworkSupport env configuration packager =
           (Inl (Error ''Cannot compute electron version for prepacked asar''), configuration,
            [GetElectronVersionFromInstalled (pkg_projectDir packager)])"
  using assms by (simp add: createElectronFrameworkSupport_def)

text \<open>The theorem at a pre-packed project in which no Electron package is installed.\<close>

theorem prepacked_without_version_fails_witness:
  "createElectronFrameworkSupport ex_readers ex_config (ex_project True) =
     (Inl (Error ''Cannot compute electron version for prepacked asar''), ex_config,
      [GetElectronVersionFromInstalled ''/proj''])"
proof -
  have a: "cfg_electronVersion ex_config = None"
    by (simp add: ex_config_def)
  have b: "pkg_isPrepackedAppAsar (ex_project True)"
    by (simp add: ex_project_def)
  have c: "ext_getElectronVersionFromInstalled ex_readers (pkg_projectDir (ex_project True)) = Inr None"
    by (simp add: ex_readers_def)
  from prepacked_without_version_fails [OF a b c] show ?thesis
    by (simp add: ex_project_def)
qed

subsection \<open>A cached archive in the distribution directory\<close>

lemma resolved_archive_delegates:
  assumes d: "configuredDist po = Some d"
    and zip: "path_join P [resolvedDistOf P po d, zipFileName po o0] \<in> set fs"
  shows "\<not> usedLocalCopy (actions (unpack P env po o0 n fs)) \<and>
         (\<forall>p. EmptyDir p \<notin> set (actions (unpack P env po o0 n fs))) \<and>
         (\<forall>o'. result (unpack P env po o0 n fs) = Inr o' \<longrightarrow>
                 o' = o0 \<lparr> dl_cache := Present (resolvedDistOf P po d) \<rparr>) \<and>
         (if ext_isSafeToUnpackElectronOnRemoteBuildServer env (po_packager po)
          then unpack P env po o0 n fs =
                 \<lparr> result = Inr (o0 \<lparr> dl_cache := Present (resolvedDistOf P po d) \<rparr>), files = fs,
                   actions = [StatOrNull (path_join P [resolvedDistOf P po d, zipFileName po o0])] \<rparr>
          else take 2 (actions (unpack P env po o0 n fs)) =
                 [StatOrNull (path_join P [resolvedDistOf P po d, zipFileName po o0]),
                  ExecuteAppBuilder
                    [Str ''unpack-electron'', Str ''--configuration'',
                     Json [o0 \<lparr> dl_cache := Present (resolvedDistOf P po d) \<rparr>],
                     Str ''--output'', Str (po_appOutDir po),
                     Str ''--distMacOsAppName'', Str n]])"
proof -
  let ?opts = "o0 \<lparr> dl_cache := Present (resolvedDistOf P po d) \<rparr>"
  let ?stat = "StatOrNull (path_join P [resolvedDistOf P po d, zipFileName po o0])"
  have r: "unpack_resolveDist P po o0 fs = \<lparr> result = Inr (?opts, None), files = fs, actions = [?stat] \<rparr>"
    using d zip by (simp add: unpack_resolveDist_outcome)
  show ?thesis
  proof (cases "ext_isSafeToUnpackElectronOnRemoteBuildServer env (po_packager po)")
    case True
    from r True have "unpack P env po o0 n fs = \<lparr> result = Inr ?opts, files = fs, actions = [?stat] \<rparr>"
      by (rule unpack_skip)
    with True show ?thesis by (simp add: usedLocalCopy_def)
  next
    case False
    note u = unpack_delegated [OF r False refl, where n = n]
    show ?thesis using False
      by (cases "ext_executeAppBuilder env [Str ''unpack-electron'', Str ''--configuration'', Json [?opts],
                 Str ''--output'', Str (po_appOutDir po), Str ''--distMacOsAppName'', Str n] fs")
         (simp_all add: u cleanupAfterUnpack_actions usedLocalCopy_def removeDefaultApp_def
                removeVersionMarker_def renameLicense_def)
  qed
qed



text \<open>
  Claim C5. Let \<open>electronDist\<close> be a path \<open>d\<close>, or a function that returns \<open>d\<close> for
  the prepare options, and let \<open>dir\<close> be \<open>d\<close> itself when \<open>path.isAbsolute\<close> holds of
  it and \<open>path.resolve(projectDir, d)\<close> otherwise. When the file
  \<open>electron-v<version>-<platform>-<arch>.zip\<close> exists in \<open>dir\<close> (at the path that
  \<open>path.join\<close> gives), for the version and arch of the download options and the
  platform name of the prepare options, then \<open>unpack\<close> never takes the copy strategy:
  it calls neither \<open>emptyDir\<close> nor \<open>copyDir\<close>. The options leave the call with
  \<open>cache\<close> set to \<open>dir\<close>; the unpack worker, when it is called (the acquisition is
  not skipped), is called right after the look-up of the archive with these options.
  This holds for every path module.
\<close>

theorem cached_archive_switches_to_delegated:
  assumes configured:
      "cfg_electronDist (pp_config (po_packager po)) = Some (DistPath d) \<or>
       (\<exists>f. cfg_electronDist (pp_config (po_packager po)) = Some (DistFn f) \<and>
            f (po_appOutDir po) (po_platformName po) (po_arch po) (po_version po) = Some d)"
    and version: "dl_version o0 = Present v"
    and arch: "dl_arch o0 = Present a"
    and platform:
      "plat = (case po_platformName po of darwin \<Rightarrow> ''darwin'' | linux \<Rightarrow> ''linux''
               | win32 \<Rightarrow> ''win32'' | mas \<Rightarrow> ''mas'')"
    and dir:
      "dir = (if path_isAbsolute P d then d
              else path_resolve P (pp_projectDir (po_packager po)) d)"
    and zip:
      "path_join P [dir, ''electron-v'' @ v @ ''-'' @ plat @ ''-'' @ a @ ''.zip''] \<in> set fs"
  shows "\<not> usedLocalCopy (actions (unpack P env po o0 n fs)) \<and>
         (\<forall>p. EmptyDir p \<notin> set (actions (unpack P env po o0 n fs))) \<and>
         (\<forall>o'. result (unpack P env po o0 n fs) = Inr o' \<longrightarrow>
                 o' = o0 \<lparr> dl_cache := Present dir \<rparr>) \<and>
         (if ext_isSafeToUnpackElectronOnRemoteBuildServer env (po_packager po)
          then unpack P env po o0 n fs =
                 \<lparr> result = Inr (o0 \<lparr> dl_cache := Present dir \<rparr>), files = fs,
                   actions =
                     [StatOrNull
                        (path_join P [dir, ''electron-v'' @ v @ ''-'' @ plat @ ''-'' @ a @ ''.zip''])] \<rparr>
          else take 2 (actions (unpack P env po o0 n fs)) =
                 [StatOrNull
                    (path_join P [dir, ''electron-v'' @ v @ ''-'' @ plat @ ''-'' @ a @ ''.zip'']),
                  ExecuteAppBuilder
                    [Str ''unpack-electron'', Str ''--configuration'',
                     Json [o0 \<lparr> dl_cache := Present dir \<rparr>],
                     Str ''--output'', Str (po_appOutDir po),
                     Str ''--distMacOsAppName'', Str n]])"
proof -
  from configured have d: "configuredDist po = Some d"
    by (auto simp: configuredDist_def)
  have name: "zipFileName po o0 = ''electron-v'' @ v @ ''-'' @ plat @ ''-'' @ a @ ''.zip''"
    using version arch platform
    by (simp add: zipFileName_def js_template_def platformName_str_def)
  have resolved: "resolvedDistOf P po d = dir"
    using dir by (simp add: resolvedDistOf_def)
  from zip have "path_join P [resolvedDistOf P po d, zipFileName po o0] \<in> set fs"
    by (simp only: name resolved)
  from resolved_archive_delegates [OF d this, where env = env and n = n]
  show ?thesis
    unfolding name resolved .
qed

text \<open>
  The theorem under Node's POSIX path functions, at two configured directories that
  need them: the relative \<open>./dist\<close> and the absolute \<open>/proj/dist/\<close> with its trailing
  separator. Both hold the archive for version 30.0.0, win32 and x64 at
  \<open>/proj/dist/electron-v30.0.0-win32-x64.zip\<close>; the worker is called with the cache
  \<open>/proj/dist\<close> in the first run and \<open>/proj/dist/\<close> in the second.
\<close>

theorem cached_archive_switches_to_delegated_witness:
  "actions (unpack ex_path (ex_collaborators False)
       (ex_prepare WINDOWS win32 (ex_config \<lparr> cfg_electronDist := Some (DistPath ''./dist'') \<rparr>))
       (ex_options win32) ''Electron.app''
       [''/out'', ''/out/old'', ''/proj/dist'', ''/proj/dist/electron-v30.0.0-win32-x64.zip''])
     = [StatOrNull ''/proj/dist/electron-v30.0.0-win32-x64.zip'',
        ExecuteAppBuilder
          [Str ''unpack-electron'', Str ''--configuration'',
           Json [(ex_options win32) \<lparr> dl_cache := Present ''/proj/dist'' \<rparr>],
           Str ''--output'', Str ''/out'', Str ''--distMacOsAppName'', Str ''Electron.app''],
        Rename ''/out/LICENSE'' ''/out/LICENSE.electron.txt''] \<and>
   \<not> usedLocalCopy (actions (unpack ex_path (ex_collaborators False)
       (ex_prepare WINDOWS win32 (ex_config \<lparr> cfg_electronDist := Some (DistPath ''./dist'') \<rparr>))
       (ex_options win32) ''Electron.app''
       [''/out'', ''/out/old'', ''/proj/dist'', ''/proj/dist/electron-v30.0.0-win32-x64.zip''])) \<and>
   take 2 (actions (unpack ex_path (ex_collaborators False)
       (ex_prepare WINDOWS win32 (ex_config \<lparr> cfg_electronDist := Some (DistPath ''/proj/dist/'') \<rparr>))
       (ex_options win32) ''Electron.app''
       [''/out'', ''/out/old'', ''/proj/dist'', ''/proj/dist/electron-v30.0.0-win32-x64.zip'']))
     = [StatOrNull ''/proj/dist/electron-v30.0.0-win32-x64.zip'',
        ExecuteAppBuilder
          [Str ''unpack-electron'', Str ''--configuration'',
           Json [(ex_options win32) \<lparr> dl_cache := Present ''/proj/dist/'' \<rparr>],
           Str ''--output'', Str ''/out'', Str ''--distMacOsAppName'', Str ''Electron.app'']]"
proof -
  let ?fs = "[''/out'', ''/out/old'', ''/proj/dist'', ''/proj/dist/electron-v30.0.0-win32-x64.zip'']"
  let ?rel = "ex_prepare WINDOWS win32 (ex_config \<lparr> cfg_electronDist := Some (DistPath ''./dist'') \<rparr>)"
  let ?abs = "ex_prepare WINDOWS win32 (ex_config \<lparr> cfg_electronDist := Some (DistPath ''/proj/dist/'') \<rparr>)"
  have version: "dl_version (ex_options win32) = Present ''30.0.0''"
    and arch: "dl_arch (ex_options win32) = Present ''x64''"
    by (simp_all add: ex_options_def createDownloadOpts_def spread_def spreadProperty_def
          noDownloadOptions_def ex_config_def)
  have unsafe: "\<not> ext_isSafeToUnpackElectronOnRemoteBuildServer (ex_collaborators False) (po_packager po)"
    for po
    by (simp add: ex_collaborators_def)
  have rel_platform: "''win32'' = (case po_platformName ?rel of darwin \<Rightarrow> ''darwin''
      | linux \<Rightarrow> ''linux'' | win32 \<Rightarrow> ''win32'' | mas \<Rightarrow> ''mas'')"
    and abs_platform: "''win32'' = (case po_platformName ?abs of darwin \<Rightarrow> ''darwin''
      | linux \<Rightarrow> ''linux'' | win32 \<Rightarrow> ''win32'' | mas \<Rightarrow> ''mas'')"
    by (simp_all add: ex_prepare_def)
  have rel_configured:
    "cfg_electronDist (pp_config (po_packager ?rel)) = Some (DistPath ''./dist'') \<or>
     (\<exists>f. cfg_electronDist (pp_config (po_packager ?rel)) = Some (DistFn f) \<and>
          f (po_appOutDir ?rel) (po_platformName ?rel) (po_arch ?rel) (po_version ?rel) = Some ''./dist'')"
    by (simp add: ex_prepare_def ex_packager_def)
  have rel_dir: "''/proj/dist'' = (if path_isAbsolute ex_path ''./dist'' then ''./dist''
      else path_resolve ex_path (pp_projectDir (po_packager ?rel)) ''./dist'')"
    by (simp add: run_defs)
  have rel_zip: "path_join ex_path [''/proj/dist'',
      ''electron-v'' @ ''30.0.0'' @ ''-'' @ ''win32'' @ ''-'' @ ''x64'' @ ''.zip''] \<in> set ?fs"
    by (simp add: run_defs)
  have rel_name: "path_join ex_path [''/proj/dist'',
      ''electron-v'' @ ''30.0.0'' @ ''-'' @ ''win32'' @ ''-'' @ ''x64'' @ ''.zip'']
      = ''/proj/dist/electron-v30.0.0-win32-x64.zip''"
    by (simp add: run_defs)
  have abs_configured:
    "cfg_electronDist (pp_config (po_packager ?abs)) = Some (DistPath ''/proj/dist/'') \<or>
     (\<exists>f. cfg_electronDist (pp_config (po_packager ?abs)) = Some (DistFn f) \<and>
          f (po_appOutDir ?abs) (po_platformName ?abs) (po_arch ?abs) (po_version ?abs) = Some ''/proj/dist/'')"
    by (simp add: ex_prepare_def ex_packager_def)
  have abs_dir: "''/proj/dist/'' = (if path_isAbsolute ex_path ''/proj/dist/'' then ''/proj/dist/''
      else path_resolve ex_path (pp_projectDir (po_packager ?abs)) ''/proj/dist/'')"
    by (simp add: run_defs)
  have abs_zip: "path_join ex_path [''/proj/dist/'',
      ''electron-v'' @ ''30.0.0'' @ ''-'' @ ''win32'' @ ''-'' @ ''x64'' @ ''.zip''] \<in> set ?fs"
    by (simp add: run_defs)
  have abs_name: "path_join ex_path [''/proj/dist/'',
      ''electron-v'' @ ''30.0.0'' @ ''-'' @ ''win32'' @ ''-'' @ ''x64'' @ ''.zip'']
      = ''/proj/dist/electron-v30.0.0-win32-x64.zip''"
    by (simp add: run_defs)
  have out: "po_appOutDir ?rel = ''/out''" "po_appOutDir ?abs = ''/out''"
    by (simp_all add: ex_prepare_def)
  have run: "actions (unpack ex_path (ex_collaborators False) ?rel (ex_options win32)
        ''Electron.app'' ?fs)
     = [StatOrNull ''/proj/dist/electron-v30.0.0-win32-x64.zip'',
        ExecuteAppBuilder
          [Str ''unpack-electron'', Str ''--configuration'',
           Json [(ex_options win32) \<lparr> dl_cache := Present ''/proj/dist'' \<rparr>],
           Str ''--output'', Str ''/out'', Str ''--distMacOsAppName'', Str ''Electron.app''],
        Rename ''/out/LICENSE'' ''/out/LICENSE.electron.txt'']"
    by (simp add: run_defs)
  note rel = cached_archive_switches_to_delegated
    [OF rel_configured version arch rel_platform rel_dir rel_zip,
     where env = "ex_collaborators False" and n = "''Electron.app''"]
  note abs = cached_archive_switches_to_delegated
    [OF abs_configured version arch abs_platform abs_dir abs_zip,
     where env = "ex_collaborators False" and n = "''Electron.app''"]
  from rel have a: "\<not> usedLocalCopy (actions (unpack ex_path (ex_collaborators False) ?rel
      (ex_options win32) ''Electron.app'' ?fs))"
    by (rule conjunct1)
  from abs unsafe [of ?abs]
  have b: "take 2 (actions (unpack ex_path (ex_collaborators False) ?abs (ex_options win32)
      ''Electron.app'' ?fs))
     = [StatOrNull ''/proj/dist/electron-v30.0.0-win32-x64.zip'',
        ExecuteAppBuilder
          [Str ''unpack-electron'', Str ''--configuration'',
           Json [(ex_options win32) \<lparr> dl_cache := Present ''/proj/dist/'' \<rparr>],
           Str ''--output'', Str ''/out'', Str ''--distMacOsAppName'', Str ''Electron.app'']]"
    unfolding abs_name out by simp
  from run a b show ?thesis by blast
qed

subsection \<open>Locale pruning on macOS\<close>

text \<open>
  Claim C6. On macOS with the allow-list \<open>{en, fr}\<close>, when the resources directory
  that the bundle constructor leaves lists exactly \<open>en.lproj\<close>, \<open>fr.lproj\<close>,
  \<open>de.lproj\<close> and \<open>readme.txt\<close>, in whatever order, the hook removes
  \<open>de.lproj\<close> and nothing else: its only removal is \<open>fs.rm\<close> of \<open>de.lproj\<close>, the
  file system afterwards is the one before without the path that \<open>path.join\<close> gives
  for the directory and \<open>de.lproj\<close>, and what lies below it; where that path is the
  directory, the separator and \<open>de.lproj\<close>, the directory lists the other three
  entries afterwards, in their old order. The map over the listing is modelled as one
  call of the callback per entry, in the order of the listing; the theorem holds for
  every such order, and for every path module.
\<close>

theorem locale_pruning_example:
  assumes mac: "pp_platform (bc_packager options) = MAC"
    and wanted: "set (asArray (pp_electronLanguages (bc_packager options))) = {''en'', ''fr''}"
    and built: "ext_createMacApp env (bc_packager options) (bc_appOutDir options)
                   (bc_asarIntegrity options) (bc_platformName options = mas) fs = Inr fs1"
    and dir: "pp_getResourcesDir (bc_packager options) (bc_appOutDir options) = res"
    and present: "res \<in> set fs1"
    and listing: "mset (fs_entries res fs1) =
                    {#''en.lproj'', ''fr.lproj'', ''de.lproj'', ''readme.txt''#}"
  shows "result (beforeCopyExtraFiles P env options fs) = Inr () \<and>
         actions (beforeCopyExtraFiles P env options fs) =
           [CreateMacApp (bc_appOutDir options) (bc_platformName options = mas), Readdir res,
            Rm (path_join P [res, ''de.lproj''])] \<and>
         files (beforeCopyExtraFiles P env options fs) = fs_remove (path_join P [res, ''de.lproj'']) fs1 \<and>
         (path_join P [res, ''de.lproj''] = res @ ''/de.lproj'' \<longrightarrow>
            fs_entries res (files (beforeCopyExtraFiles P env options fs)) =
              filter (\<lambda>m. m \<noteq> ''de.lproj'') (fs_entries res fs1) \<and>
            mset (fs_entries res (files (beforeCopyExtraFiles P env options fs))) =
              {#''en.lproj'', ''fr.lproj'', ''readme.txt''#})"
proof -
  let ?wanted = "asArray (pp_electronLanguages (bc_packager options))"
  have nonempty: "?wanted \<noteq> []"
  proof
    assume "?wanted = []"
    then have "set ?wanted = {}" by simp
    with wanted show False by simp
  qed
  have "mset (filter (prunable ?wanted) (fs_entries res fs1)) = {#''de.lproj''#}"
    unfolding mset_filter listing
    by (simp add: prunable_def endsWith_def langFileExt_def wanted)
  then have pr: "filter (prunable ?wanted) (fs_entries res fs1) = [''de.lproj'']"
    by (simp only: mset_single_iff)
  have run: "beforeCopyExtraFiles P env options fs =
      \<lparr> result = Inr (), files = fs_remove (path_join P [res, ''de.lproj'']) fs1,
        actions = [CreateMacApp (bc_appOutDir options) (bc_platformName options = mas), Readdir res,
            Rm (path_join P [res, ''de.lproj''])] \<rparr>"
    using mac nonempty built dir present
    by (simp add: beforeCopyExtraFiles_def Let_def io_bind_def io_return_def
          createMacApp_def external_def readdir_def promise_all_pruneLocale pr)
  have kept: "fs_entries res (fs_remove (res @ ''/'' @ ''de.lproj'') fs1) =
      filter (\<lambda>m. m \<noteq> ''de.lproj'') (fs_entries res fs1)"
    by (rule fs_entries_remove)
  have rest: "mset (filter (\<lambda>m. m \<noteq> ''de.lproj'') (fs_entries res fs1)) =
          {#''en.lproj'', ''fr.lproj'', ''readme.txt''#}"
    unfolding mset_filter listing by simp
  have "fs_entries res (files (beforeCopyExtraFiles P env options fs)) =
          filter (\<lambda>m. m \<noteq> ''de.lproj'') (fs_entries res fs1) \<and>
        mset (fs_entries res (files (beforeCopyExtraFiles P env options fs))) =
          {#''en.lproj'', ''fr.lproj'', ''readme.txt''#}"
    if joined: "path_join P [res, ''de.lproj''] = res @ ''/de.lproj''"
  proof -
    from run joined have "files (beforeCopyExtraFiles P env options fs) =
        fs_remove (res @ ''/'' @ ''de.lproj'') fs1"
      by simp
    with kept rest show ?thesis by simp
  qed
  then have entries: "path_join P [res, ''de.lproj''] = res @ ''/de.lproj'' \<longrightarrow>
        fs_entries res (files (beforeCopyExtraFiles P env options fs)) =
          filter (\<lambda>m. m \<noteq> ''de.lproj'') (fs_entries res fs1) \<and>
        mset (fs_entries res (files (beforeCopyExtraFiles P env options fs))) =
          {#''en.lproj'', ''fr.lproj'', ''readme.txt''#}"
    by (rule impI)
  from run have "result (beforeCopyExtraFiles P env options fs) = Inr ()"
    and "actions (beforeCopyExtraFiles P env options fs) =
           [CreateMacApp (bc_appOutDir options) (bc_platformName options = mas), Readdir res,
            Rm (path_join P [res, ''de.lproj''])]"
    and "files (beforeCopyExtraFiles P env options fs) = fs_remove (path_join P [res, ''de.lproj'']) fs1"
    by simp_all
  with entries show ?thesis
    by (intro conjI)
qed

text \<open>
  The theorem at a bundle whose resources directory enumerates \<open>fr.lproj\<close>,
  \<open>readme.txt\<close>, \<open>de.lproj\<close>, \<open>en.lproj\<close>, two of the locale directories holding
  a file: \<open>de.lproj\<close> goes with its file, the rest stays.
\<close>

theorem locale_pruning_example_witness:
  "fs_entries ex_resources ex_bundle = [''fr.lproj'', ''readme.txt'', ''de.lproj'', ''en.lproj''] \<and>
   actions (beforeCopyExtraFiles ex_path (ex_collaborators False)
              (ex_hook MAC darwin (Some (Languages [''en'', ''fr'']))) ex_bundle) =
     [CreateMacApp ''/out'' False, Readdir ex_resources, Rm (ex_resources @ ''/de.lproj'')] \<and>
   files (beforeCopyExtraFiles ex_path (ex_collaborators False)
            (ex_hook MAC darwin (Some (Languages [''en'', ''fr'']))) ex_bundle) =
     [''/out'', ''/out/My App.app'', ''/out/My App.app/Contents'', ex_resources,
      ex_resources @ ''/fr.lproj'', ex_resources @ ''/readme.txt'',
      ex_resources @ ''/en.lproj'', ex_resources @ ''/en.lproj/locale.pak''] \<and>
   fs_entries ex_resources (files (beforeCopyExtraFiles ex_path (ex_collaborators False)
            (ex_hook MAC darwin (Some (Languages [''en'', ''fr'']))) ex_bundle)) =
     [''fr.lproj'', ''readme.txt'', ''en.lproj'']"
proof -
  let ?options = "ex_hook MAC darwin (Some (Languages [''en'', ''fr'']))"
  have mac: "pp_platform (bc_packager ?options) = MAC"
    by (simp add: ex_hook_def ex_packager_def)
  have wanted: "set (asArray (pp_electronLanguages (bc_packager ?options))) = {''en'', ''fr''}"
    by (simp add: ex_hook_def ex_packager_def asArray_def)
  have built: "ext_createMacApp (ex_collaborators False) (bc_packager ?options) (bc_appOutDir ?options)
      (bc_asarIntegrity ?options) (bc_platformName ?options = mas) ex_bundle = Inr ex_bundle"
    by (simp add: ex_collaborators_def)
  have dir: "pp_getResourcesDir (bc_packager ?options) (bc_appOutDir ?options) = ex_resources"
    by (simp add: ex_hook_def ex_packager_def ex_resources_def run_defs)
  have present: "ex_resources \<in> set ex_bundle"
    by (simp add: ex_bundle_def)
  have entries: "fs_entries ex_resources ex_bundle =
      [''fr.lproj'', ''readme.txt'', ''de.lproj'', ''en.lproj'']"
    by (simp add: fs_entries_def isEntry_def entryName_def under_def ex_bundle_def ex_resources_def)
  have listing: "mset (fs_entries ex_resources ex_bundle) =
      {#''en.lproj'', ''fr.lproj'', ''de.lproj'', ''readme.txt''#}"
    unfolding entries by simp
  have joined: "path_join ex_path [ex_resources, ''de.lproj''] = ex_resources @ ''/de.lproj''"
    by (simp add: run_defs ex_resources_def)
  have removed: "fs_remove (ex_resources @ ''/de.lproj'') ex_bundle =
      [''/out'', ''/out/My App.app'', ''/out/My App.app/Contents'', ex_resources,
       ex_resources @ ''/fr.lproj'', ex_resources @ ''/readme.txt'',
       ex_resources @ ''/en.lproj'', ex_resources @ ''/en.lproj/locale.pak'']"
    by (simp add: fs_remove_def under_def ex_bundle_def ex_resources_def)
  have appOutDir: "bc_appOutDir ?options = ''/out''" "bc_platformName ?options \<noteq> mas"
    by (simp_all add: ex_hook_def)
  note pruned = locale_pruning_example [OF mac wanted built dir present listing, of ex_path]
  from pruned appOutDir joined have a: "actions (beforeCopyExtraFiles ex_path (ex_collaborators False) ?options ex_bundle) =
      [CreateMacApp ''/out'' False, Readdir ex_resources, Rm (ex_resources @ ''/de.lproj'')]"
    by simp
  from pruned removed joined have f: "files (beforeCopyExtraFiles ex_path (ex_collaborators False) ?options ex_bundle) =
      [''/out'', ''/out/My App.app'', ''/out/My App.app/Contents'', ex_resources,
       ex_resources @ ''/fr.lproj'', ex_resources @ ''/readme.txt'',
       ex_resources @ ''/en.lproj'', ex_resources @ ''/en.lproj/locale.pak'']"
    by simp
  from pruned joined have "fs_entries ex_resources
        (files (beforeCopyExtraFiles ex_path (ex_collaborators False) ?options ex_bundle)) =
      filter (\<lambda>m. m \<noteq> ''de.lproj'') (fs_entries ex_resources ex_bundle)"
    by blast
  then have e: "fs_entries ex_resources
        (files (beforeCopyExtraFiles ex_path (ex_collaborators False) ?options ex_bundle)) =
      [''fr.lproj'', ''readme.txt'', ''en.lproj'']"
    unfolding entries by simp
  from entries a f e show ?thesis by blast
qed

text \<open>
  Claim C7, as amended. On macOS with an empty allow-list (\<open>electronLanguages\<close> absent
  or an empty array) the hook does no pruning: it performs the call of the bundle
  constructor and no other operation, no \<open>readdir\<close> and no \<open>fs.rm\<close>, and it ends as
  that call ends. The file system after the hook is the one the bundle constructor
  left (the one before the hook when the constructor fails). The constructor itself
  may change the directory.
\<close>

theorem empty_allow_list_prunes_nothing:
  assumes "pp_platform (bc_packager options) = MAC"
    and "asArray (pp_electronLanguages (bc_packager options)) = []"
  shows "beforeCopyExtraFiles P env options fs =
           createMacApp env (bc_packager options) (bc_appOutDir options) (bc_asarIntegrity options)
             (bc_platformName options = mas) fs
         \<and> actions (beforeCopyExtraFiles P env options fs) =
             [CreateMacApp (bc_appOutDir options) (bc_platformName options = mas)]
         \<and> (\<forall>fs'. ext_createMacApp env (bc_packager options) (bc_appOutDir options)
                    (bc_asarIntegrity options) (bc_platformName options = mas) fs = Inr fs'
               \<longrightarrow> result (beforeCopyExtraFiles P env options fs) = Inr () \<and>
                   files (beforeCopyExtraFiles P env options fs) = fs')
         \<and> (\<forall>e. ext_createMacApp env (bc_packager options) (bc_appOutDir options)
                    (bc_asarIntegrity options) (bc_platformName options = mas) fs = Inl e
               \<longrightarrow> result (beforeCopyExtraFiles P env options fs) = Inl e \<and>
                   files (beforeCopyExtraFiles P env options fs) = fs)"
  using assms
  by (auto simp: beforeCopyExtraFiles_def Let_def io_bind_def io_return_def createMacApp_def
        external_def split: sum.splits)

text \<open>
  The theorem at a bundle that the constructor leaves as it is, with no
  \<open>electronLanguages\<close> configured: the hook changes nothing.
\<close>

theorem empty_allow_list_prunes_nothing_witness:
  "beforeCopyExtraFiles ex_path (ex_collaborators False) (ex_hook MAC darwin None) ex_bundle =
     \<lparr> result = Inr (), files = ex_bundle, actions = [CreateMacApp ''/out'' False] \<rparr>"
proof -
  have mac: "pp_platform (bc_packager (ex_hook MAC darwin None)) = MAC"
    by (simp add: ex_hook_def ex_packager_def)
  have none: "asArray (pp_electronLanguages (bc_packager (ex_hook MAC darwin None))) = []"
    by (simp add: ex_hook_def ex_packager_def asArray_def)
  have built: "createMacApp (ex_collaborators False) (bc_packager (ex_hook MAC darwin None))
      (bc_appOutDir (ex_hook MAC darwin None)) (bc_asarIntegrity (ex_hook MAC darwin None))
      (bc_platformName (ex_hook MAC darwin None) = mas) ex_bundle =
      \<lparr> result = Inr (), files = ex_bundle, actions = [CreateMacApp ''/out'' False] \<rparr>"
    by (simp add: createMacApp_def external_def ex_collaborators_def ex_hook_def)
  from empty_allow_list_prunes_nothing
         [OF mac none, of ex_path "ex_collaborators False" ex_bundle] built
  show ?thesis by simp
qed

text \<open>
  Claim C7 as it is written fails: with an empty allow-list and a bundle constructor
  that renames \<open>Electron.app\<close> to \<open>My App.app\<close>, the resources directory of the
  packager has no entry before the hook and two after it, and the directory of the
  distribution has two entries before the hook and none after it.
\<close>

theorem resources_differ_after_hook:
  "asArray (pp_electronLanguages (bc_packager (ex_hook MAC darwin None))) = [] \<and>
   pp_getResourcesDir (bc_packager (ex_hook MAC darwin None)) (bc_appOutDir (ex_hook MAC darwin None))
     = ''/out/My App.app/Contents/Resources'' \<and>
   fs_entries ''/out/My App.app/Contents/Resources'' ex_unpacked = [] \<and>
   fs_entries ''/out/My App.app/Contents/Resources''
     (files (beforeCopyExtraFiles ex_path ex_renaming (ex_hook MAC darwin None) ex_unpacked))
     = [''en.lproj'', ''electron.icns''] \<and>
   fs_entries ''/out/Electron.app/Contents/Resources'' ex_unpacked
     = [''en.lproj'', ''electron.icns''] \<and>
   fs_entries ''/out/Electron.app/Contents/Resources''
     (files (beforeCopyExtraFiles ex_path ex_renaming (ex_hook MAC darwin None) ex_unpacked))
     = [] \<and>
   actions (beforeCopyExtraFiles ex_path ex_renaming (ex_hook MAC darwin None) ex_unpacked)
     = [CreateMacApp ''/out'' False]"
  by (simp add: beforeCopyExtraFiles_def createMacApp_def external_def io_bind_def io_return_def
        asArray_def fs_entries_def isEntry_def entryName_def under_def fs_move_def Let_def
        ex_renaming_def ex_collaborators_def ex_hook_def ex_packager_def ex_config_def
        ex_unpacked_def posix_join_def posix_normalize_def posix_isAbsolute_def
        normalizeString_def normalizeStep_def)

subsection \<open>The Windows executable\<close>

text \<open>
  Claim C8, as amended. On Windows the hook performs one operation, the rename of
  \<open><projectName>.exe\<close> in \<open>appOutDir\<close> to \<open><productFilename>.exe\<close>. When the source
  executable exists the hook succeeds and the destination exists afterwards. When the
  source executable is absent, as on a second run over a directory already renamed, the
  rename rejects with \<open>ENOENT\<close> and so does the hook: the error is not swallowed, and
  the directory is left as it was. This holds for every path module.
\<close>

theorem windows_rename_fails_without_source:
  fixes P :: pathModule
  assumes "pp_platform (bc_packager options) = WINDOWS"
  defines "src \<equiv> path_join P [bc_appOutDir options,
                     projectName (createBrandingOpts (pp_config (bc_packager options))) @ ''.exe'']"
    and "dst \<equiv> path_join P [bc_appOutDir options, pp_productFilename (bc_packager options) @ ''.exe'']"
  shows "actions (beforeCopyExtraFiles P env options fs) = [Rename src dst] \<and>
         (src \<in> set fs \<longrightarrow>
            result (beforeCopyExtraFiles P env options fs) = Inr () \<and>
            files (beforeCopyExtraFiles P env options fs) = fs_move src dst fs \<and>
            dst \<in> set (files (beforeCopyExtraFiles P env options fs))) \<and>
         (src \<notin> set fs \<longrightarrow>
            result (beforeCopyExtraFiles P env options fs) = Inl (ENOENT src) \<and>
            files (beforeCopyExtraFiles P env options fs) = fs)"
  using assms(1)
  by (simp add: beforeCopyExtraFiles_def Let_def rename_def src_def dst_def fs_move_dst)

text \<open>The theorem at a fresh stage directory: \<open>electron.exe\<close> becomes \<open>My App.exe\<close>.\<close>

theorem windows_rename_fails_without_source_witness:
  "result (beforeCopyExtraFiles ex_path (ex_collaborators False) (ex_hook WINDOWS win32 None)
       [''/out'', ''/out/electron.exe'', ''/out/resources'']) = Inr () \<and>
   files (beforeCopyExtraFiles ex_path (ex_collaborators False) (ex_hook WINDOWS win32 None)
       [''/out'', ''/out/electron.exe'', ''/out/resources'']) =
     [''/out'', ''/out/My App.exe'', ''/out/resources''] \<and>
   actions (beforeCopyExtraFiles ex_path (ex_collaborators False) (ex_hook WINDOWS win32 None)
       [''/out'', ''/out/electron.exe'', ''/out/resources'']) =
     [Rename ''/out/electron.exe'' ''/out/My App.exe'']"
proof -
  let ?options = "ex_hook WINDOWS win32 None"
  let ?fs = "[''/out'', ''/out/electron.exe'', ''/out/resources'']"
  have win: "pp_platform (bc_packager ?options) = WINDOWS"
    by (simp add: ex_hook_def ex_packager_def)
  have src: "path_join ex_path [bc_appOutDir ?options,
        projectName (createBrandingOpts (pp_config (bc_packager ?options))) @ ''.exe''] = ''/out/electron.exe''"
    by (simp add: ex_hook_def ex_packager_def ex_config_def createBrandingOpts_def js_or_def
          run_defs)
  have dst: "path_join ex_path [bc_appOutDir ?options, pp_productFilename (bc_packager ?options) @ ''.exe'']
        = ''/out/My App.exe''"
    by (simp add: ex_hook_def ex_packager_def run_defs)
  have moved: "fs_move ''/out/electron.exe'' ''/out/My App.exe'' ?fs =
      [''/out'', ''/out/My App.exe'', ''/out/resources'']"
    by (simp add: fs_move_def under_def)
  from windows_rename_fails_without_source [OF win, of ex_path "ex_collaborators False" ?fs]
  show ?thesis
    unfolding src dst by (simp add: moved)
qed

text \<open>
  Claim C8 as it is written fails: the second run of the hook, on the directory the
  first run left, throws \<open>ENOENT\<close> for the missing \<open>electron.exe\<close>.
\<close>

theorem windows_second_run_throws:
  "files (beforeCopyExtraFiles ex_path (ex_collaborators False) (ex_hook WINDOWS win32 None)
            [''/out'', ''/out/electron.exe'', ''/out/resources'']) =
     [''/out'', ''/out/My App.exe'', ''/out/resources''] \<and>
   beforeCopyExtraFiles ex_path (ex_collaborators False) (ex_hook WINDOWS win32 None)
       (files (beforeCopyExtraFiles ex_path (ex_collaborators False) (ex_hook WINDOWS win32 None)
                 [''/out'', ''/out/electron.exe'', ''/out/resources''])) =
     \<lparr> result = Inl (ENOENT ''/out/electron.exe''),
       files = [''/out'', ''/out/My App.exe'', ''/out/resources''],
       actions = [Rename ''/out/electron.exe'' ''/out/My App.exe''] \<rparr>"
  by (simp add: beforeCopyExtraFiles_def Let_def rename_def fs_move_def under_def
        ex_path_def posix_join_def posix_normalize_def posix_isAbsolute_def normalizeString_def
        normalizeStep_def
        createBrandingOpts_def js_or_def ex_hook_def ex_packager_def ex_config_def)

subsection \<open>Branding and download options\<close>

text \<open>
  Claim C9. \<open>createBrandingOpts\<close> is a total function of the configuration whose
  result has both names non-empty. Each name is the configured one when that is a
  non-empty string, and its own default (\<open>electron\<close>, \<open>Electron\<close>) when it is absent
  or empty, whatever the other name is; with no \<open>electronBranding\<close>, or with an empty
  one, the result is \<open>{projectName: "electron", productName: "Electron"}\<close>.
\<close>

theorem createBrandingOpts_defaults:
  "projectName (createBrandingOpts opts) \<noteq> [] \<and> productName (createBrandingOpts opts) \<noteq> [] \<and>
   (cfg_electronBranding opts = None \<longrightarrow>
      createBrandingOpts opts = \<lparr> projectName = ''electron'', productName = ''Electron'' \<rparr>) \<and>
   (cfg_electronBranding opts = Some \<lparr> eb_projectName = None, eb_productName = None \<rparr> \<longrightarrow>
      createBrandingOpts opts = \<lparr> projectName = ''electron'', productName = ''Electron'' \<rparr>) \<and>
   (\<forall>b s. cfg_electronBranding opts = Some b \<longrightarrow> eb_projectName b = Some s \<longrightarrow> s \<noteq> [] \<longrightarrow>
      projectName (createBrandingOpts opts) = s) \<and>
   (\<forall>b. cfg_electronBranding opts = Some b \<longrightarrow>
      eb_projectName b = None \<or> eb_projectName b = Some [] \<longrightarrow>
      projectName (createBrandingOpts opts) = ''electron'') \<and>
   (\<forall>b s. cfg_electronBranding opts = Some b \<longrightarrow> eb_productName b = Some s \<longrightarrow> s \<noteq> [] \<longrightarrow>
      productName (createBrandingOpts opts) = s) \<and>
   (\<forall>b. cfg_electronBranding opts = Some b \<longrightarrow>
      eb_productName b = None \<or> eb_productName b = Some [] \<longrightarrow>
      productName (createBrandingOpts opts) = ''Electron'')"
  by (auto simp: createBrandingOpts_def js_or_def split: option.splits)

text \<open>
  The theorem at a branding with a project name and an empty product name: the first
  is kept, the second defaults on its own. And at no branding at all.
\<close>

theorem createBrandingOpts_defaults_witness:
  "createBrandingOpts (ex_config \<lparr> cfg_electronBranding :=
      Some \<lparr> eb_projectName = Some ''myapp'', eb_productName = Some [] \<rparr> \<rparr>)
     = \<lparr> projectName = ''myapp'', productName = ''Electron'' \<rparr>
   \<and> createBrandingOpts ex_config = \<lparr> projectName = ''electron'', productName = ''Electron'' \<rparr>"
  using createBrandingOpts_defaults [of "ex_config \<lparr> cfg_electronBranding :=
      Some \<lparr> eb_projectName = Some ''myapp'', eb_productName = Some [] \<rparr> \<rparr>"]
    createBrandingOpts_defaults [of ex_config]
  by (simp add: ex_config_def)

text \<open>
  Claim C10. In the options that \<open>createDownloadOpts\<close> builds, every property that
  the configured \<open>electronDownload\<close> has, whatever its value (\<open>undefined\<close> and
  \<open>null\<close> included), is the configured one: a configured \<open>version\<close>, \<open>platform\<close> or
  \<open>arch\<close> replaces the resolved Electron version and the target platform and
  architecture, which stand only where the configured object has no such property. The
  other properties are the configured ones. With no \<open>electronDownload\<close> the options
  are the three computed properties.
\<close>

theorem createDownloadOpts_configured_wins:
  "(\<forall>d. cfg_electronDownload opts = Some d \<longrightarrow>
      (dl_version d \<noteq> Absent \<longrightarrow>
         dl_version (createDownloadOpts opts platform arch electronVersion) = dl_version d) \<and>
      (dl_platform d \<noteq> Absent \<longrightarrow>
         dl_platform (createDownloadOpts opts platform arch electronVersion) = dl_platform d) \<and>
      (dl_arch d \<noteq> Absent \<longrightarrow>
         dl_arch (createDownloadOpts opts platform arch electronVersion) = dl_arch d) \<and>
      (dl_version d = Absent \<longrightarrow>
         dl_version (createDownloadOpts opts platform arch electronVersion) = Present electronVersion) \<and>
      (dl_platform d = Absent \<longrightarrow>
         dl_platform (createDownloadOpts opts platform arch electronVersion) = Present platform) \<and>
      (dl_arch d = Absent \<longrightarrow>
         dl_arch (createDownloadOpts opts platform arch electronVersion) = Present arch) \<and>
      dl_cache (createDownloadOpts opts platform arch electronVersion) = dl_cache d \<and>
      dl_mirror (createDownloadOpts opts platform arch electronVersion) = dl_mirror d \<and>
      dl_customDir (createDownloadOpts opts platform arch electronVersion) = dl_customDir d \<and>
      dl_customFilename (createDownloadOpts opts platform arch electronVersion) = dl_customFilename d \<and>
      dl_strictSSL (createDownloadOpts opts platform arch electronVersion) = dl_strictSSL d \<and>
      dl_isVerifyChecksum (createDownloadOpts opts platform arch electronVersion) =
        dl_isVerifyChecksum d) \<and>
   (cfg_electronDownload opts = None \<longrightarrow>
      createDownloadOpts opts platform arch electronVersion =
        \<lparr> dl_version = Present electronVersion, dl_cache = Absent, dl_mirror = Absent,
          dl_customDir = Absent, dl_customFilename = Absent, dl_strictSSL = Absent,
          dl_isVerifyChecksum = Absent, dl_platform = Present platform, dl_arch = Present arch \<rparr>)"
proof (intro conjI allI impI)
  fix d
  assume d: "cfg_electronDownload opts = Some d"
  note defs = createDownloadOpts_def spread_def noDownloadOptions_def
  show "dl_version (createDownloadOpts opts platform arch electronVersion) = dl_version d"
    if "dl_version d \<noteq> Absent"
    using d that by (simp add: defs spreadProperty_present)
  show "dl_platform (createDownloadOpts opts platform arch electronVersion) = dl_platform d"
    if "dl_platform d \<noteq> Absent"
    using d that by (simp add: defs spreadProperty_present)
  show "dl_arch (createDownloadOpts opts platform arch electronVersion) = dl_arch d"
    if "dl_arch d \<noteq> Absent"
    using d that by (simp add: defs spreadProperty_present)
  show "dl_version (createDownloadOpts opts platform arch electronVersion) = Present electronVersion"
    if "dl_version d = Absent"
    using d that by (simp add: defs spreadProperty_def)
  show "dl_platform (createDownloadOpts opts platform arch electronVersion) = Present platform"
    if "dl_platform d = Absent"
    using d that by (simp add: defs spreadProperty_def)
  show "dl_arch (createDownloadOpts opts platform arch electronVersion) = Present arch"
    if "dl_arch d = Absent"
    using d that by (simp add: defs spreadProperty_def)
  show "dl_cache (createDownloadOpts opts platform arch electronVersion) = dl_cache d"
    using d by (simp add: defs spreadProperty_absent)
  show "dl_mirror (createDownloadOpts opts platform arch electronVersion) = dl_mirror d"
    using d by (simp add: defs spreadProperty_absent)
  show "dl_customDir (createDownloadOpts opts platform arch electronVersion) = dl_customDir d"
    using d by (simp add: defs spreadProperty_absent)
  show "dl_customFilename (createDownloadOpts opts platform arch electronVersion) = dl_customFilename d"
    using d by (simp add: defs spreadProperty_absent)
  show "dl_strictSSL (createDownloadOpts opts platform arch electronVersion) = dl_strictSSL d"
    using d by (simp add: defs spreadProperty_absent)
  show "dl_isVerifyChecksum (createDownloadOpts opts platform arch electronVersion) =
          dl_isVerifyChecksum d"
    using d by (simp add: defs spreadProperty_absent)
next
  assume "cfg_electronDownload opts = None"
  then show "createDownloadOpts opts platform arch electronVersion =
        \<lparr> dl_version = Present electronVersion, dl_cache = Absent, dl_mirror = Absent,
          dl_customDir = Absent, dl_customFilename = Absent, dl_strictSSL = Absent,
          dl_isVerifyChecksum = Absent, dl_platform = Present platform, dl_arch = Present arch \<rparr>"
    by (simp add: createDownloadOpts_def spread_def spreadProperty_def noDownloadOptions_def)
qed

text \<open>
  The theorem at an \<open>electronDownload\<close> that has \<open>version\<close> with the value
  \<open>undefined\<close>, an \<open>arch\<close>, a mirror and a \<open>cache\<close> that is \<open>null\<close>, for a build
  that resolved version 30.0.0 on win32 and x64: the version of the options is
  \<open>undefined\<close>, and only the platform is the computed one.
\<close>

theorem createDownloadOpts_configured_wins_witness:
  "createDownloadOpts
     (ex_config \<lparr> cfg_electronDownload :=
        Some (noDownloadOptions \<lparr> dl_version := Undefined, dl_arch := Present ''arm64'',
                                  dl_mirror := Present ''https://mirror.example/'',
                                  dl_cache := Null \<rparr>) \<rparr>)
     win32 ''x64'' ''30.0.0''
   = \<lparr> dl_version = Undefined, dl_cache = Null, dl_mirror = Present ''https://mirror.example/'',
       dl_customDir = Absent, dl_customFilename = Absent, dl_strictSSL = Absent,
       dl_isVerifyChecksum = Absent, dl_platform = Present win32, dl_arch = Present ''arm64'' \<rparr>"
proof -
  let ?d = "noDownloadOptions \<lparr> dl_version := Undefined, dl_arch := Present ''arm64'',
                                dl_mirror := Present ''https://mirror.example/'',
                                dl_cache := Null \<rparr>"
  let ?opts = "ex_config \<lparr> cfg_electronDownload := Some ?d \<rparr>"
  have configured: "cfg_electronDownload ?opts = Some ?d"
    by simp
  have present: "dl_version ?d \<noteq> Absent" "dl_version ?d = Undefined"
    by (simp_all add: noDownloadOptions_def)
  from createDownloadOpts_configured_wins [of ?opts win32 "''x64''" "''30.0.0''"]
       configured present
  have "dl_version (createDownloadOpts ?opts win32 ''x64'' ''30.0.0'') = Undefined"
    by simp
  then show ?thesis
    by (simp add: createDownloadOpts_def spread_def spreadProperty_def noDownloadOptions_def)
qed

end
